theory Spec2Isabelle
  imports Main "HOL-Library.Word" "HOL-Library.Multiset"
    "HOL-Library.Char_ord" "HOL-Library.List_Lexorder"
begin

section \<open>Atlas composition: layout planning and glyph remapping (src/genFont.ts)\<close>

text \<open>
  JavaScript numbers are modelled as \<open>int\<close>: page sizes, glyph rectangles and page
  indices are integers in the rasterizer's output, and offsets, baselines and font metrics
  are taken to be integers as well (fractions and values beyond \<open>2 ^ 53\<close> are not
  modelled). The operator \<open>a || b\<close> on a number yields \<open>b\<close> when \<open>a\<close> is falsy,
  which for an integer means \<open>a = 0\<close>.
\<close>

definition js_or :: "int \<Rightarrow> int \<Rightarrow> int" where
  "js_or a b = (if a = 0 then b else a)"

text \<open>
  An array read \<open>xs[i]\<close> with a number \<open>i\<close>: \<open>undefined\<close> (here \<open>None\<close>) unless
  \<open>0 \<le> i < xs.length\<close>.
\<close>

definition js_index :: "'a list \<Rightarrow> int \<Rightarrow> 'a option" where
  "js_index xs i = (if 0 \<le> i \<and> i < int (length xs) then Some (xs ! nat i) else None)"

text \<open>The argument of \<open>calculateOptimalLayout\<close>: \<open>{ width, height }\<close> of one page image.\<close>

record texture =
  tex_width :: int
  tex_height :: int

text \<open>One entry of \<open>TextureLayout.positions\<close>: \<open>{ x, y, width, height }\<close>.\<close>

record position =
  pos_x :: int
  pos_y :: int
  pos_width :: int
  pos_height :: int

text \<open>\<open>interface TextureLayout { width; height; positions }\<close>.\<close>

record TextureLayout =
  layout_width :: int
  layout_height :: int
  positions :: "position list"

definition PADDING :: int where
  "PADDING = 2"

text \<open>
  \<open>calculateOptimalLayout\<close>: one page gives its own size (512 for a falsy dimension) and a
  placement at the origin; any other number of pages is laid out left to right with the
  constant page size 256 x 256, the sizes passed in being ignored.
\<close>

definition calculateOptimalLayout :: "texture list \<Rightarrow> TextureLayout" where
  "calculateOptimalLayout textures =
     (if length textures = 1 then
        \<lparr> layout_width = js_or (tex_width (textures ! 0)) 512,
          layout_height = js_or (tex_height (textures ! 0)) 512,
          positions = [\<lparr> pos_x = 0, pos_y = 0,
                         pos_width = js_or (tex_width (textures ! 0)) 512,
                         pos_height = js_or (tex_height (textures ! 0)) 512 \<rparr>] \<rparr>
      else
        (let textureWidth = 256;
             textureHeight = 256;
             totalWidth = int (length textures) * textureWidth
                          + (int (length textures) - 1) * PADDING
         in \<lparr> layout_width = totalWidth,
              layout_height = textureHeight,
              positions = map (\<lambda>index. \<lparr> pos_x = int index * (textureWidth + PADDING),
                                          pos_y = 0,
                                          pos_width = textureWidth,
                                          pos_height = textureHeight \<rparr>)
                              [0..<length textures] \<rparr>))"

text \<open>One entry of \<open>fontData.chars\<close> (BMFont glyph record).\<close>

record glyph =
  char_id :: int
  char_x :: int
  char_y :: int
  char_width :: int
  char_height :: int
  char_xoffset :: int
  char_yoffset :: int
  char_xadvance :: int
  char_page :: int
  char_chnl :: int

text \<open>\<open>fontData.common\<close>.\<close>

record common_block =
  common_lineHeight :: int
  common_base :: int
  common_scaleW :: int
  common_scaleH :: int
  common_pages :: int

text \<open>\<open>lightningMetrics\<close>, read from the font's OS/2 table.\<close>

record font_metrics =
  ascender :: int
  descender :: int
  lineGap :: int
  unitsPerEm :: int

text \<open>
  The metadata document: the rasterizer's JSON. \<open>distanceRange\<close> is
  \<open>distanceField.distanceRange\<close>; \<open>lightningMetrics\<close> is absent until the adjuster adds it.
\<close>

record fontData =
  pages :: "string list"
  chars :: "glyph list"
  common :: common_block
  distanceRange :: int
  lightningMetrics :: "font_metrics option"

text \<open>What \<open>console.warn\<close> receives in the remapper.\<close>

datatype warning = NoPositionFound int

text \<open>The callback of \<open>fontData.chars.map\<close> in \<open>updateCharacterCoordinates\<close>.\<close>

definition remapChar :: "TextureLayout \<Rightarrow> glyph \<Rightarrow> glyph" where
  "remapChar layout c =
     (case js_index (positions layout) (char_page c) of
        None \<Rightarrow> c\<lparr> char_page := 0 \<rparr>
      | Some pagePosition \<Rightarrow>
          c\<lparr> char_x := char_x c + pos_x pagePosition,
             char_y := char_y c + pos_y pagePosition,
             char_page := 0 \<rparr>)"

definition remapWarnings :: "TextureLayout \<Rightarrow> glyph \<Rightarrow> warning list" where
  "remapWarnings layout c =
     (case js_index (positions layout) (char_page c) of
        None \<Rightarrow> [NoPositionFound (char_page c)]
      | Some pagePosition \<Rightarrow> [])"

text \<open>
  \<open>updateCharacterCoordinates\<close>: the updated document and the warnings written on the way,
  in order.
\<close>

definition updateCharacterCoordinates :: "fontData \<Rightarrow> TextureLayout \<Rightarrow> fontData \<times> warning list" where
  "updateCharacterCoordinates fontData layout =
     (fontData\<lparr> chars := map (remapChar layout) (chars fontData),
                common := (common fontData)\<lparr> common_scaleW := layout_width layout,
                                             common_scaleH := layout_height layout \<rparr> \<rparr>,
      concat (map (remapWarnings layout) (chars fontData)))"

text \<open>
  \<open>stitchTextures\<close> without the canvas: \<open>images\<close> are the sizes of the loaded page images.
  The result is the stitched image's file name, the updated document and the warnings.
\<close>

definition stitchTextures ::
  "texture list \<Rightarrow> fontData \<Rightarrow> string \<Rightarrow> string \<Rightarrow> string \<times> fontData \<times> warning list" where
  "stitchTextures images fontData fontName fieldType =
     (let layout = calculateOptimalLayout images;
          stitchedImagePath = fontName @ ''.'' @ fieldType @ ''.png'';
          (updatedFontData, warnings) = updateCharacterCoordinates fontData layout
      in (stitchedImagePath,
          updatedFontData\<lparr> pages := [fontName @ ''.'' @ fieldType @ ''.png''],
                           common := (common updatedFontData)\<lparr> common_pages := 1 \<rparr> \<rparr>,
          warnings))"

text \<open>A rectangle lies within a canvas of the given size.\<close>

definition rect_within :: "int \<Rightarrow> int \<Rightarrow> int \<Rightarrow> int \<Rightarrow> int \<Rightarrow> int \<Rightarrow> bool" where
  "rect_within rx ry rw rh w h = (0 \<le> rx \<and> 0 \<le> ry \<and> rx + rw \<le> w \<and> ry + rh \<le> h)"

definition glyph_within :: "glyph \<Rightarrow> int \<Rightarrow> int \<Rightarrow> bool" where
  "glyph_within c w h = rect_within (char_x c) (char_y c) (char_width c) (char_height c) w h"

text \<open>Sample data of the end-to-end scenarios: page sizes, a glyph and a two-page document.\<close>

definition page256 :: texture where
  "page256 = \<lparr> tex_width = 256, tex_height = 256 \<rparr>"

definition page512 :: texture where
  "page512 = \<lparr> tex_width = 512, tex_height = 512 \<rparr>"

definition page0 :: texture where
  "page0 = \<lparr> tex_width = 0, tex_height = 0 \<rparr>"

definition glyph_at :: "int \<Rightarrow> int \<Rightarrow> int \<Rightarrow> glyph" where
  "glyph_at p gx gy =
     \<lparr> char_id = 65, char_x = gx, char_y = gy, char_width = 20, char_height = 20,
       char_xoffset = 0, char_yoffset = 10, char_xadvance = 22, char_page = p, char_chnl = 15 \<rparr>"

definition doc_with :: "int \<Rightarrow> int \<Rightarrow> glyph list \<Rightarrow> fontData" where
  "doc_with d b cs =
     \<lparr> pages = [''Ubuntu-Regular.msdf.0.png'', ''Ubuntu-Regular.msdf.1.png''],
       chars = cs,
       common = \<lparr> common_lineHeight = 48, common_base = b, common_scaleW = 256,
                  common_scaleH = 256, common_pages = 2 \<rparr>,
       distanceRange = d,
       lightningMetrics = None \<rparr>"

section \<open>Metrics adjuster (adjustFont.ts)\<close>

text \<open>
  \<open>a >> n\<close> in JavaScript: the left operand is converted to a signed 32-bit integer
  (wrapping modulo \<open>2 ^ 32\<close>), then shifted arithmetically by \<open>n mod 32\<close> bits.
\<close>

definition js_sar :: "int \<Rightarrow> nat \<Rightarrow> int" where
  "js_sar a n = sint (signed_drop_bit (n mod 32) (word_of_int a :: 32 word))"

text \<open>
  \<open>path.join\<close> of two segments: an empty segment is dropped and the separator is not
  doubled after a segment that ends with it. Segments holding \<open>.\<close>, \<open>..\<close> or repeated
  separators, which Node would normalise further, are outside the model.
\<close>

definition path_join :: "string \<Rightarrow> string \<Rightarrow> string" where
  "path_join a b =
     (if a = [] then b
      else if b = [] then a
      else if last a = CHR ''/'' then a @ b
      else a @ ''/'' @ b)"

text \<open>\<open>path.basename\<close>: what follows the last separator.\<close>

definition basename :: "string \<Rightarrow> string" where
  "basename p = rev (takeWhile (\<lambda>c. c \<noteq> CHR ''/'') (rev p))"

definition metricsSubDir :: string where
  "metricsSubDir = ''metrics''"

text \<open>The fields of \<open>SdfFontInfo\<close> that the adjuster reads.\<close>

record SdfFontInfo =
  sdf_fontName :: string
  sdf_fontPath :: string
  sdf_jsonPath :: string
  sdf_dstDir :: string

text \<open>One entry of \<open>FontFamilyInfo.styles\<close>; \<open>pageCount\<close> is optional in the source.\<close>

record styleInfo =
  fontStyle :: string
  fontPath :: string
  pageIndex :: nat
  pageCount :: "nat option"

datatype field_type = ssdf | msdf

fun field_name :: "field_type \<Rightarrow> string" where
  "field_name ssdf = ''ssdf''"
| "field_name msdf = ''msdf''"

text \<open>
  \<open>FontFamilyInfo\<close>; the fields \<open>fieldType\<close>, \<open>jsonPath\<close>, \<open>pngPaths\<close> and \<open>dstDir\<close> carry
  a prefix, their names being parameters and variables of the functions below.
\<close>

record FontFamilyInfo =
  fontFamily :: string
  family_fieldType :: field_type
  styles :: "styleInfo list"
  family_jsonPath :: string
  family_pngPaths :: "string list"
  family_dstDir :: string

text \<open>What is written to a file: a metrics file or a metadata document.\<close>

datatype file_content = MetricsJson font_metrics | FontJson fontData

text \<open>
  \<open>adjustSingleFont\<close>. \<open>load\<close> stands for \<open>opentype.load\<close> followed by the reads of
  \<open>sTypoAscender\<close>, \<open>sTypoDescender\<close>, \<open>sTypoLineGap\<close> and \<open>unitsPerEm\<close>; \<open>json\<close> is the
  parsed content of \<open>fontInfo.jsonPath\<close>. The result is the adjusted document and the
  files written.
\<close>

definition adjustSingleFont ::
  "(string \<Rightarrow> font_metrics) \<Rightarrow> SdfFontInfo \<Rightarrow> fontData \<Rightarrow> fontData \<times> (string \<times> file_content) list" where
  "adjustSingleFont load fontInfo json =
     (let font = load (sdf_fontPath fontInfo);
          distanceField = distanceRange json;
          pad = js_sar distanceField 1;
          json1 = json\<lparr> common := (common json)\<lparr> common_base := common_base (common json) - pad \<rparr> \<rparr>;
          json2 = json1\<lparr> chars := map (\<lambda>char. char\<lparr> char_yoffset := char_yoffset char - pad - pad \<rparr>)
                                      (chars json1) \<rparr>;
          fontMetrics = \<lparr> ascender = ascender font, descender = descender font,
                          lineGap = lineGap font, unitsPerEm = unitsPerEm font \<rparr>;
          json3 = json2\<lparr> lightningMetrics := Some fontMetrics \<rparr>;
          metricsDir = path_join (sdf_dstDir fontInfo) metricsSubDir;
          metricsFilePath = path_join metricsDir (sdf_fontName fontInfo @ ''.metrics.json'')
      in (json3, [(metricsFilePath, MetricsJson fontMetrics), (sdf_jsonPath fontInfo, FontJson json3)]))"

text \<open>
  \<open>adjustFontFamily\<close>. \<open>None\<close> is the early return after the warning that the family has no
  styles. The guards \<open>json.distanceField && json.distanceField.distanceRange\<close> and
  \<open>json.common && json.common.base\<close> test the truthiness of a number: they fail on 0.
\<close>

definition adjustFontFamily ::
  "(string \<Rightarrow> font_metrics) \<Rightarrow> FontFamilyInfo \<Rightarrow> fontData
     \<Rightarrow> (fontData \<times> (string \<times> file_content) list) option" where
  "adjustFontFamily load fontInfo json =
     (case styles fontInfo of
        [] \<Rightarrow> None
      | firstStyle # _ \<Rightarrow>
         (let font = load (fontPath firstStyle);
              distanceField = (if distanceRange json \<noteq> 0 then distanceRange json else 4);
              pad = js_sar distanceField 1;
              json1 = (if common_base (common json) \<noteq> 0
                       then json\<lparr> common := (common json)\<lparr> common_base := common_base (common json) - pad \<rparr> \<rparr>
                       else json);
              json2 = json1\<lparr> chars := map (\<lambda>char. char\<lparr> char_yoffset := char_yoffset char - pad - pad \<rparr>)
                                          (chars json1) \<rparr>;
              fontMetrics = \<lparr> ascender = ascender font, descender = descender font,
                              lineGap = lineGap font, unitsPerEm = unitsPerEm font \<rparr>;
              json3 = json2\<lparr> lightningMetrics := Some fontMetrics \<rparr>;
              metricsDir = path_join (family_dstDir fontInfo) metricsSubDir;
              allStyleMetrics =
                map (\<lambda>style. let styleFont = load (fontPath style)
                              in (fontStyle style,
                                  \<lparr> ascender = ascender styleFont, descender = descender styleFont,
                                    lineGap = lineGap styleFont, unitsPerEm = unitsPerEm styleFont \<rparr>))
                    (styles fontInfo);
              firstMetrics = snd (hd allStyleMetrics);
              allMetricsIdentical =
                list_all (\<lambda>item. ascender (snd item) = ascender firstMetrics \<and>
                                  descender (snd item) = descender firstMetrics \<and>
                                  lineGap (snd item) = lineGap firstMetrics \<and>
                                  unitsPerEm (snd item) = unitsPerEm firstMetrics)
                         allStyleMetrics;
              writes =
                (if allMetricsIdentical
                 then [(path_join metricsDir (fontFamily fontInfo @ ''.metrics.json''),
                        MetricsJson firstMetrics)]
                 else map (\<lambda>item. (path_join metricsDir
                                       (fontFamily fontInfo @ ''-'' @ fst item @ ''.metrics.json''),
                                     MetricsJson (snd item)))
                          allStyleMetrics)
          in Some (json3, writes @ [(family_jsonPath fontInfo, FontJson json3)])))"

text \<open>The metrics files among the files written.\<close>

fun metricsFiles :: "(string \<times> file_content) list \<Rightarrow> (string \<times> font_metrics) list" where
  "metricsFiles [] = []"
| "metricsFiles ((p, MetricsJson m) # ws) = (p, m) # metricsFiles ws"
| "metricsFiles ((p, FontJson j) # ws) = metricsFiles ws"

text \<open>
  The metrics files that exist after the writes: a path written twice is one file.
\<close>

definition metricsFileNames :: "(string \<times> file_content) list \<Rightarrow> string list" where
  "metricsFileNames ws = remdups (map fst (metricsFiles ws))"

text \<open>Sample data of the metrics scenarios.\<close>

definition sample_metrics :: "int \<Rightarrow> font_metrics" where
  "sample_metrics u = \<lparr> ascender = 1900, descender = -500, lineGap = 100, unitsPerEm = u \<rparr>"

definition sample_load :: "string \<Rightarrow> font_metrics" where
  "sample_load p = (if p = ''font-src/Ubuntu-Italic.ttf'' then sample_metrics 1000 else sample_metrics 2048)"

definition sample_single :: SdfFontInfo where
  "sample_single = \<lparr> sdf_fontName = ''Ubuntu-Regular'', sdf_fontPath = ''font-src/Ubuntu-Regular.ttf'',
                      sdf_jsonPath = ''font-dst/Ubuntu-Regular.msdf.json'', sdf_dstDir = ''font-dst'' \<rparr>"

text \<open>
  A family in which two fonts carry the style label Regular, a TrueType and an OpenType
  file with different units per em.
\<close>

definition sample_dup_load :: "string \<Rightarrow> font_metrics" where
  "sample_dup_load p =
     (if p = ''font-src/Ubuntu-Regular.otf'' then sample_metrics 1000 else sample_metrics 2048)"

definition sample_dup_family :: FontFamilyInfo where
  "sample_dup_family =
     \<lparr> fontFamily = ''Ubuntu'', family_fieldType = msdf,
       styles = [\<lparr> fontStyle = ''Regular'', fontPath = ''font-src/Ubuntu-Regular.otf'',
                   pageIndex = 0, pageCount = Some 1 \<rparr>,
                 \<lparr> fontStyle = ''Regular'', fontPath = ''font-src/Ubuntu-Regular.ttf'',
                   pageIndex = 1, pageCount = Some 1 \<rparr>,
                 \<lparr> fontStyle = ''Bold'', fontPath = ''font-src/Ubuntu-Bold.ttf'',
                   pageIndex = 1, pageCount = Some 1 \<rparr>],
       family_jsonPath = ''font-dst/Ubuntu.msdf.json'', family_pngPaths = [],
       family_dstDir = ''font-dst'' \<rparr>"

definition sample_family :: "string list \<Rightarrow> FontFamilyInfo" where
  "sample_family labels =
     \<lparr> fontFamily = ''Ubuntu'', family_fieldType = msdf,
       styles = map (\<lambda>l. \<lparr> fontStyle = l, fontPath = ''font-src/Ubuntu-'' @ l @ ''.ttf'',
                           pageIndex = 0, pageCount = Some 1 \<rparr>) labels,
       family_jsonPath = ''font-dst/Ubuntu.msdf.json'', family_pngPaths = [],
       family_dstDir = ''font-dst'' \<rparr>"

section \<open>Family aggregator (genFont.ts, family mode)\<close>

subsection \<open>Ordering the styles of a family\<close>

text \<open>An element of the array a family is grouped into: \<open>{ path, style, fileName }\<close>.\<close>

record fontFile =
  file_path :: string
  file_style :: string
  file_name :: string

text \<open>\<open>toLowerCase\<close> on ASCII letters; other characters are kept.\<close>

definition lowerChar :: "char \<Rightarrow> char" where
  "lowerChar c =
     (case map_of (zip ''ABCDEFGHIJKLMNOPQRSTUVWXYZ'' ''abcdefghijklmnopqrstuvwxyz'') c of
        None \<Rightarrow> c
      | Some l \<Rightarrow> l)"

definition toLowerCase :: "string \<Rightarrow> string" where
  "toLowerCase s = map lowerChar s"

text \<open>
  The comparison function given to \<open>fonts.sort\<close>. \<open>localeCompare\<close> belongs to the
  JavaScript runtime and is a parameter.
\<close>

definition compareFonts :: "(string \<Rightarrow> string \<Rightarrow> int) \<Rightarrow> fontFile \<Rightarrow> fontFile \<Rightarrow> int" where
  "compareFonts localeCompare a b =
     (if toLowerCase (file_style a) = ''regular'' then - 1
      else if toLowerCase (file_style b) = ''regular'' then 1
      else localeCompare (file_style a) (file_style b))"

text \<open>
  \<open>Array.prototype.sort\<close> as a stable insertion sort: each element in turn is placed into
  the sorted prefix, before the first element it compares below. The comparison function
  above answers \<open>- 1\<close> for a Regular style against any style, another Regular one
  included, so where the language leaves the order to the engine the model follows the
  insertion sort that V8 applies to short arrays.
\<close>

fun insertSorted :: "('a \<Rightarrow> 'a \<Rightarrow> int) \<Rightarrow> 'a \<Rightarrow> 'a list \<Rightarrow> 'a list" where
  "insertSorted cmp v [] = [v]"
| "insertSorted cmp v (e # es) = (if cmp v e < 0 then v # e # es else e # insertSorted cmp v es)"

definition arraySort :: "('a \<Rightarrow> 'a \<Rightarrow> int) \<Rightarrow> 'a list \<Rightarrow> 'a list" where
  "arraySort cmp xs = foldl (\<lambda>sorted v. insertSorted cmp v sorted) [] xs"

definition sortFonts :: "(string \<Rightarrow> string \<Rightarrow> int) \<Rightarrow> fontFile list \<Rightarrow> fontFile list" where
  "sortFonts localeCompare fonts = arraySort (compareFonts localeCompare) fonts"

text \<open>
  What the sort relies on in \<open>localeCompare\<close>: it is a consistent comparison function, that
  is, swapping the arguments swaps the sign, and "not above" is transitive.
\<close>

definition consistentCompare :: "(string \<Rightarrow> string \<Rightarrow> int) \<Rightarrow> bool" where
  "consistentCompare localeCompare =
     ((\<forall>a b. (localeCompare a b < 0) = (0 < localeCompare b a)) \<and>
      (\<forall>a b c. localeCompare a b \<le> 0 \<and> localeCompare b c \<le> 0 \<longrightarrow> localeCompare a c \<le> 0))"

definition isRegular :: "fontFile \<Rightarrow> bool" where
  "isRegular f = (toLowerCase (file_style f) = ''regular'')"

text \<open>A comparison by character codes, as an instance of \<open>localeCompare\<close>.\<close>

definition codeUnitCompare :: "string \<Rightarrow> string \<Rightarrow> int" where
  "codeUnitCompare a b = (if a < b then - 1 else if a = b then 0 else 1)"

definition styled :: "string \<Rightarrow> string \<Rightarrow> fontFile" where
  "styled ext l = \<lparr> file_path = ''font-src/Ubuntu-'' @ l @ ext, file_style = l,
                    file_name = ''Ubuntu-'' @ l @ ext \<rparr>"

subsection \<open>Generating a family\<close>

text \<open>A number in a template string: its decimal digits.\<close>

fun show_nat :: "nat \<Rightarrow> string" where
  "show_nat n = (if n < 10 then [''0123456789'' ! n]
                 else show_nat (n div 10) @ [''0123456789'' ! (n mod 10)])"

declare show_nat.simps [simp del]

definition startsWith :: "string \<Rightarrow> string \<Rightarrow> bool" where
  "startsWith s p = (take (length p) s = p)"

definition endsWith :: "string \<Rightarrow> string \<Rightarrow> bool" where
  "endsWith s p = (length p \<le> length s \<and> drop (length s - length p) s = p)"

text \<open>
  The destination directory \<open>fontDstDir\<close> as the list of the file names in it. Writing a
  file adds its name, \<open>unlinkSync\<close> removes it.
\<close>

type_synonym directory = "string list"

definition writeFile :: "string \<Rightarrow> directory \<Rightarrow> directory" where
  "writeFile f d = (if f \<in> set d then d else d @ [f])"

definition unlink :: "string \<Rightarrow> directory \<Rightarrow> directory" where
  "unlink f d = removeAll f d"

text \<open>
  \<open>generateFont\<close> of the family mode, with the number of textures the rasterizer returned:
  it writes one image per texture (numbered when there are several) and the JSON file, and
  returns the image names.
\<close>

definition generateFont :: "nat \<Rightarrow> string \<Rightarrow> string \<Rightarrow> directory \<Rightarrow> directory \<times> string list" where
  "generateFont textures fontName fieldType d =
     (let pngPaths = map (\<lambda>index. if textures > 1
                                   then fontName @ ''.'' @ fieldType @ ''_'' @ show_nat index @ ''.png''
                                   else fontName @ ''.'' @ fieldType @ ''.png'')
                         [0..<textures];
          d1 = foldl (\<lambda>acc texturePath. writeFile texturePath acc) d pngPaths
      in (writeFile (fontName @ ''.'' @ fieldType @ ''.json'') d1, pngPaths))"

text \<open>The variables of \<open>generateFontFamily\<close> that its loops update.\<close>

record familyState =
  dir :: directory
  globalPageIndex :: nat
  familyPngPaths :: "string list"
  styleInfos :: "styleInfo list"

text \<open>Copying one image to the next family page.\<close>

definition copyPage :: "string \<Rightarrow> string \<Rightarrow> string \<Rightarrow> familyState \<Rightarrow> familyState" where
  "copyPage fontDstDir familyName fieldType st =
     (let familyPage = familyName @ ''.'' @ fieldType @ ''_'' @ show_nat (globalPageIndex st) @ ''.png''
      in st\<lparr> dir := writeFile familyPage (dir st),
              familyPngPaths := familyPngPaths st @ [path_join fontDstDir familyPage],
              globalPageIndex := globalPageIndex st + 1 \<rparr>)"

text \<open>
  The body of the second loop of \<open>generateFontFamily\<close> for the style at index \<open>i\<close>. The
  sort of \<open>paginatedFiles\<close> only permutes the names; file contents are not modelled.
\<close>

definition relabelStyle ::
  "string \<Rightarrow> string \<Rightarrow> string \<Rightarrow> familyState \<Rightarrow> nat \<times> fontFile \<Rightarrow> familyState" where
  "relabelStyle fontDstDir familyName fieldType st entry =
     (let i = fst entry;
          font = snd entry;
          individualBaseName = familyName @ ''-'' @ file_style font @ ''.'' @ fieldType;
          files = dir st;
          paginatedFiles = filter (\<lambda>file. startsWith file (individualBaseName @ ''_'')
                                          \<and> endsWith file ''.png'') files;
          startPageIndex = globalPageIndex st;
          stylePagesCount = (if length paginatedFiles > 0 then length paginatedFiles else 1);
          individualPath = individualBaseName @ ''.png'';
          st1 = (if length paginatedFiles > 0
                 then foldl (\<lambda>acc paginatedFile. copyPage fontDstDir familyName fieldType acc)
                            st paginatedFiles
                 else if individualPath \<in> set (dir st)
                 then copyPage fontDstDir familyName fieldType st
                 else st);
          st2 = st1\<lparr> styleInfos := (styleInfos st1)
                        [i := \<lparr> fontStyle = file_style font, fontPath = file_path font,
                                pageIndex = startPageIndex, pageCount = Some stylePagesCount \<rparr>] \<rparr>;
          d1 = unlink individualPath (dir st2);
          d2 = filter (\<lambda>file. \<not> (file \<in> set files \<and> startsWith file (individualBaseName @ ''_'')
                                        \<and> endsWith file ''.png'')) d1;
          d3 = unlink (individualBaseName @ ''.json'') d2
      in st2\<lparr> dir := d3 \<rparr>)"

text \<open>An entry of the \<open>styles\<close> array of the family's metadata document.\<close>

record styleEntry =
  entry_style :: string
  entry_pageIndex :: nat
  entry_pageCount :: nat
  entry_pageRange :: string

definition styleEntryOf :: "styleInfo \<Rightarrow> styleEntry" where
  "styleEntryOf s =
     \<lparr> entry_style = fontStyle s,
       entry_pageIndex = pageIndex s,
       entry_pageCount = (case pageCount s of None \<Rightarrow> 1 | Some n \<Rightarrow> if n = 0 then 1 else n),
       entry_pageRange =
         (case pageCount s of
            None \<Rightarrow> show_nat (pageIndex s)
          | Some n \<Rightarrow> if n > 1 then show_nat (pageIndex s) @ ''-'' @ show_nat (pageIndex s + n - 1)
                      else show_nat (pageIndex s)) \<rparr>"

text \<open>The family's metadata document: the first style's document with the family fields.\<close>

record familyDoc =
  doc_template :: fontData
  doc_face :: string
  doc_styles :: "styleEntry list"

text \<open>
  The body of the first loop of \<open>generateFontFamily\<close>. \<open>raster\<close> stands for the
  rasterizer: for a font path, the number of textures and the metadata document it returns.
\<close>

definition rasterizeStyle ::
  "(string \<Rightarrow> nat \<times> fontData) \<Rightarrow> string \<Rightarrow> string \<Rightarrow> familyState \<Rightarrow> nat \<times> fontFile
     \<Rightarrow> familyState" where
  "rasterizeStyle raster familyName fieldType st entry =
     (let i = fst entry;
          font = snd entry;
          textureData = generateFont (fst (raster (file_path font)))
                          (familyName @ ''-'' @ file_style font) fieldType (dir st)
      in st\<lparr> dir := fst textureData,
              styleInfos := styleInfos st
                @ [\<lparr> fontStyle = file_style font, fontPath = file_path font,
                     pageIndex = i, pageCount = None \<rparr>] \<rparr>)"

text \<open>
  \<open>generateFontFamily\<close>. The result is the directory afterwards and, unless the function
  returns \<open>null\<close>, the descriptor and the family document. The first style's JSON is read
  in the first pass of the first loop, if the file exists then.
\<close>

definition generateFontFamily ::
  "(string \<Rightarrow> nat \<times> fontData) \<Rightarrow> string \<Rightarrow> directory \<Rightarrow> string \<Rightarrow> fontFile list \<Rightarrow> field_type
     \<Rightarrow> directory \<times> (FontFamilyInfo \<times> familyDoc) option" where
  "generateFontFamily raster fontDstDir d familyName fonts fieldTy =
     (if length fonts = 0 then (d, None)
      else
       (let fieldType = field_name fieldTy;
            start = \<lparr> dir = d, globalPageIndex = 0, familyPngPaths = [], styleInfos = [] \<rparr>;
            st0 = foldl (rasterizeStyle raster familyName fieldType) start
                    (zip [0..<length fonts] fonts);
            firstJson = familyName @ ''-'' @ file_style (fonts ! 0) @ ''.'' @ fieldType @ ''.json'';
            combinedJsonData =
              (if firstJson \<in> set (dir (rasterizeStyle raster familyName fieldType start (0, fonts ! 0)))
               then Some (snd (raster (file_path (fonts ! 0)))) else None);
            st = foldl (relabelStyle fontDstDir familyName fieldType) st0
                   (zip [0..<length fonts] fonts)
        in case combinedJsonData of
             None \<Rightarrow> (dir st, None)
           | Some template \<Rightarrow>
               (let familyJsonPath = path_join fontDstDir (familyName @ ''.'' @ fieldType @ ''.json'');
                    document = \<lparr> doc_template = template\<lparr> pages := map basename (familyPngPaths st) \<rparr>,
                                 doc_face = familyName,
                                 doc_styles = map styleEntryOf (styleInfos st) \<rparr>
                in (writeFile (familyName @ ''.'' @ fieldType @ ''.json'') (dir st),
                    Some (\<lparr> fontFamily = familyName, family_fieldType = fieldTy,
                            styles = styleInfos st, family_jsonPath = familyJsonPath,
                            family_pngPaths = familyPngPaths st, family_dstDir = fontDstDir \<rparr>,
                          document)))))"

text \<open>Sample rasterizer: one texture for every font, and the two-page sample document.\<close>

definition sample_raster :: "string \<Rightarrow> nat \<times> fontData" where
  "sample_raster p = (1, doc_with 4 40 [glyph_at 0 10 10])"

section \<open>The layout planner\<close>

lemma calculateOptimalLayout_multi:
  "length textures \<noteq> 1 \<Longrightarrow> calculateOptimalLayout textures =
     \<lparr> layout_width = 258 * int (length textures) - 2, layout_height = 256,
       positions = map (\<lambda>index. \<lparr> pos_x = 258 * int index, pos_y = 0,
                                   pos_width = 256, pos_height = 256 \<rparr>)
                       [0..<length textures] \<rparr>"
  by (simp add: calculateOptimalLayout_def PADDING_def Let_def algebra_simps)

lemma calculateOptimalLayout_single:
  "calculateOptimalLayout [t] =
     \<lparr> layout_width = js_or (tex_width t) 512, layout_height = js_or (tex_height t) 512,
       positions = [\<lparr> pos_x = 0, pos_y = 0, pos_width = js_or (tex_width t) 512,
                      pos_height = js_or (tex_height t) 512 \<rparr>] \<rparr>"
  by (simp add: calculateOptimalLayout_def)

lemma sum_list_const: "\<forall>t\<in>set ts. f t = (c::int) \<Longrightarrow> sum_list (map f ts) = int (length ts) * c"
  by (induction ts) (auto simp: algebra_simps)

text \<open>
  Claim C1 (multi-page plan: canvas height is the page height, canvas width the sum of the
  page widths plus the gutters, placements disjoint, left to right and inside the canvas).
  The planner does not read the sizes of the pages when there are several: for two pages
  of 512 x 512 it returns a canvas of 514 x 256 with placements of 256 x 256 at x = 0 and
  x = 258. The canvas is neither as high as the pages nor as wide as their widths plus the
  gutter (1026); the first page, drawn at its placement in full size, reaches over the
  second placement, and the second page does not fit the canvas.
\<close>

theorem layout_ignores_page_size:
  "(let textures = [page512, page512];
        plan = calculateOptimalLayout textures
    in layout_width plan = 514 \<and> layout_height plan = 256 \<and>
       positions plan = [\<lparr> pos_x = 0, pos_y = 0, pos_width = 256, pos_height = 256 \<rparr>,
                         \<lparr> pos_x = 258, pos_y = 0, pos_width = 256, pos_height = 256 \<rparr>] \<and>
       layout_height plan \<noteq> tex_height (textures ! 0) \<and>
       layout_width plan
         \<noteq> sum_list (map tex_width textures) + (int (length textures) - 1) * PADDING \<and>
       pos_x (positions plan ! 1) < pos_x (positions plan ! 0) + tex_width (textures ! 0) \<and>
       \<not> rect_within (pos_x (positions plan ! 1)) (pos_y (positions plan ! 1))
            (tex_width (textures ! 1)) (tex_height (textures ! 1))
            (layout_width plan) (layout_height plan))"
  by (simp add: calculateOptimalLayout_multi page512_def PADDING_def rect_within_def Let_def)

text \<open>
  For pages of the size the planner assumes, 256 x 256, the plan is the one claim C1
  describes.
\<close>

lemma layout_standard_pages:
  assumes "2 \<le> length textures"
    and "\<forall>t\<in>set textures. tex_width t = 256 \<and> tex_height t = 256"
  shows "layout_height (calculateOptimalLayout textures) = 256"
    and "layout_width (calculateOptimalLayout textures)
          = sum_list (map tex_width textures) + (int (length textures) - 1) * PADDING"
    and "length (positions (calculateOptimalLayout textures)) = length textures"
    and "i < j \<Longrightarrow> j < length textures \<Longrightarrow>
           pos_x (positions (calculateOptimalLayout textures) ! i)
             + pos_width (positions (calculateOptimalLayout textures) ! i)
           \<le> pos_x (positions (calculateOptimalLayout textures) ! j)"
    and "i < length textures \<Longrightarrow>
           rect_within (pos_x (positions (calculateOptimalLayout textures) ! i))
                       (pos_y (positions (calculateOptimalLayout textures) ! i))
                       (pos_width (positions (calculateOptimalLayout textures) ! i))
                       (pos_height (positions (calculateOptimalLayout textures) ! i))
                       (layout_width (calculateOptimalLayout textures))
                       (layout_height (calculateOptimalLayout textures))"
proof -
  from assms(1) have n: "length textures \<noteq> 1" by simp
  have s: "sum_list (map tex_width textures) = int (length textures) * 256"
    using assms(2) by (simp add: sum_list_const)
  show "layout_height (calculateOptimalLayout textures) = 256"
    by (simp add: calculateOptimalLayout_multi [OF n])
  show "layout_width (calculateOptimalLayout textures)
          = sum_list (map tex_width textures) + (int (length textures) - 1) * PADDING"
    by (simp add: calculateOptimalLayout_multi [OF n] s PADDING_def algebra_simps)
  show "length (positions (calculateOptimalLayout textures)) = length textures"
    by (simp add: calculateOptimalLayout_multi [OF n])
  show "i < j \<Longrightarrow> j < length textures \<Longrightarrow>
           pos_x (positions (calculateOptimalLayout textures) ! i)
             + pos_width (positions (calculateOptimalLayout textures) ! i)
           \<le> pos_x (positions (calculateOptimalLayout textures) ! j)"
    by (simp add: calculateOptimalLayout_multi [OF n])
  show "i < length textures \<Longrightarrow>
           rect_within (pos_x (positions (calculateOptimalLayout textures) ! i))
                       (pos_y (positions (calculateOptimalLayout textures) ! i))
                       (pos_width (positions (calculateOptimalLayout textures) ! i))
                       (pos_height (positions (calculateOptimalLayout textures) ! i))
                       (layout_width (calculateOptimalLayout textures))
                       (layout_height (calculateOptimalLayout textures))"
    by (simp add: calculateOptimalLayout_multi [OF n] rect_within_def)
qed

text \<open>
  The fallback of the single-page branch: a zero dimension is replaced by 512. No page image
  has a zero dimension, so this is outside the inputs of the planner in the program.
\<close>

lemma single_page_zero_dimension:
  "layout_width (calculateOptimalLayout [page0]) = 512 \<and>
   layout_height (calculateOptimalLayout [page0]) = 512 \<and>
   layout_width (calculateOptimalLayout [page0]) \<noteq> tex_width page0 \<and>
   layout_height (calculateOptimalLayout [page0]) \<noteq> tex_height page0 \<and>
   positions (calculateOptimalLayout [page0])
     \<noteq> [\<lparr> pos_x = 0, pos_y = 0, pos_width = tex_width page0, pos_height = tex_height page0 \<rparr>]"
  by (simp add: calculateOptimalLayout_single js_or_def page0_def)

text \<open>
  Claim C4: for every single page, its width and height not zero as those of an image are,
  the plan is the identity: the canvas has the page's size and there is exactly one
  placement, at (0, 0), of the page's size. The one placement is at the origin and covers
  the canvas, and remapping with the plan leaves the x and y of every glyph unchanged.
\<close>

theorem single_page_plan:
  "(tex_width t \<noteq> 0 \<and> tex_height t \<noteq> 0 \<longrightarrow>
      calculateOptimalLayout [t]
        = \<lparr> layout_width = tex_width t, layout_height = tex_height t,
            positions = [\<lparr> pos_x = 0, pos_y = 0,
                           pos_width = tex_width t, pos_height = tex_height t \<rparr>] \<rparr>) \<and>
   layout_width (calculateOptimalLayout [t]) = (if tex_width t = 0 then 512 else tex_width t) \<and>
   layout_height (calculateOptimalLayout [t]) = (if tex_height t = 0 then 512 else tex_height t) \<and>
   positions (calculateOptimalLayout [t])
     = [\<lparr> pos_x = 0, pos_y = 0, pos_width = layout_width (calculateOptimalLayout [t]),
          pos_height = layout_height (calculateOptimalLayout [t]) \<rparr>] \<and>
   char_x (remapChar (calculateOptimalLayout [t]) c) = char_x c \<and>
   char_y (remapChar (calculateOptimalLayout [t]) c) = char_y c \<and>
   map char_x (chars (fst (updateCharacterCoordinates fontData (calculateOptimalLayout [t]))))
     = map char_x (chars fontData) \<and>
   map char_y (chars (fst (updateCharacterCoordinates fontData (calculateOptimalLayout [t]))))
     = map char_y (chars fontData)"
  by (auto simp: calculateOptimalLayout_single js_or_def remapChar_def js_index_def
      updateCharacterCoordinates_def split: option.splits)

theorem single_page_plan_witness:
  "tex_width page256 \<noteq> 0 \<and> tex_height page256 \<noteq> 0 \<and>
   calculateOptimalLayout [page256]
     = \<lparr> layout_width = 256, layout_height = 256,
         positions = [\<lparr> pos_x = 0, pos_y = 0, pos_width = 256, pos_height = 256 \<rparr>] \<rparr>"
  using single_page_plan [of page256] by (simp add: page256_def)

section \<open>The glyph coordinate remapper\<close>

lemma stitchTextures_result:
  "stitchTextures images fontData fontName fieldType =
     (fontName @ ''.'' @ fieldType @ ''.png'',
      fontData\<lparr> chars := map (remapChar (calculateOptimalLayout images)) (chars fontData),
                common := (common fontData)
                   \<lparr> common_scaleW := layout_width (calculateOptimalLayout images),
                     common_scaleH := layout_height (calculateOptimalLayout images),
                     common_pages := 1 \<rparr>,
                pages := [fontName @ ''.'' @ fieldType @ ''.png''] \<rparr>,
      concat (map (remapWarnings (calculateOptimalLayout images)) (chars fontData)))"
  by (simp add: stitchTextures_def updateCharacterCoordinates_def Let_def)

text \<open>
  Claim C2 (a glyph inside its page is inside the merged canvas after remapping, on page
  0). Stitching two pages of 512 x 512 with a glyph of 20 x 20 at (300, 300) on page 1,
  which lies inside its page: the glyph moves to page 0 at (558, 300), while the canvas
  written to the document is 514 x 256, so the glyph lies outside the canvas. This is the
  defect of claim C1, the planner taking every page to be 256 x 256.
\<close>

theorem remap_outside_canvas:
  "(let images = [page512, page512];
        c = glyph_at 1 300 300;
        (stitchedImagePath, updated, warnings) =
           stitchTextures images (doc_with 4 40 [c]) ''Ubuntu-Regular'' ''msdf''
    in glyph_within c (tex_width (images ! 1)) (tex_height (images ! 1)) \<and>
       warnings = [] \<and>
       common_scaleW (common updated) = 514 \<and> common_scaleH (common updated) = 256 \<and>
       chars updated = [(glyph_at 1 300 300)\<lparr> char_x := 558, char_page := 0 \<rparr>] \<and>
       \<not> glyph_within (chars updated ! 0)
            (common_scaleW (common updated)) (common_scaleH (common updated)))"
  by (simp add: stitchTextures_result calculateOptimalLayout_multi page512_def glyph_at_def
      doc_with_def glyph_within_def rect_within_def remapChar_def remapWarnings_def
      js_index_def Let_def)

text \<open>
  Where the pages are no larger than the size the planner assumes (or there is one page),
  a glyph inside its page is inside the canvas after remapping, as claim C2 says.
\<close>

lemma remap_within_canvas:
  assumes small: "length textures \<noteq> 1 \<Longrightarrow>
                    \<forall>t\<in>set textures. tex_width t \<le> 256 \<and> tex_height t \<le> 256"
    and page: "js_index textures (char_page c) = Some t"
    and inside: "glyph_within c (tex_width t) (tex_height t)"
  shows "glyph_within (remapChar (calculateOptimalLayout textures) c)
           (layout_width (calculateOptimalLayout textures))
           (layout_height (calculateOptimalLayout textures))
         \<and> char_page (remapChar (calculateOptimalLayout textures) c) = 0"
proof (cases "length textures = 1")
  case True
  then obtain t0 where t0: "textures = [t0]"
    by (cases textures) auto
  with page have "char_page c = 0" and "t = t0"
    by (auto simp: js_index_def split: if_splits)
  with inside show ?thesis
    by (auto simp: t0 calculateOptimalLayout_single remapChar_def js_index_def
        glyph_within_def rect_within_def js_or_def)
next
  case False
  from page have rng: "0 \<le> char_page c" "char_page c < int (length textures)"
    and t: "t = textures ! nat (char_page c)"
    by (auto simp: js_index_def split: if_splits)
  then have "t \<in> set textures" by simp
  with small [OF False] have le: "tex_width t \<le> 256" "tex_height t \<le> 256" by auto
  have idx: "js_index (positions (calculateOptimalLayout textures)) (char_page c)
               = Some \<lparr> pos_x = 258 * char_page c, pos_y = 0, pos_width = 256, pos_height = 256 \<rparr>"
  proof -
    from rng have "nat (char_page c) < length textures" by simp
    then show ?thesis
      using rng by (simp add: calculateOptimalLayout_multi [OF False] js_index_def)
  qed
  have r: "remapChar (calculateOptimalLayout textures) c
             = c\<lparr> char_x := char_x c + 258 * char_page c, char_y := char_y c, char_page := 0 \<rparr>"
    by (simp add: remapChar_def idx)
  have w: "layout_width (calculateOptimalLayout textures) = 258 * int (length textures) - 2"
    and h: "layout_height (calculateOptimalLayout textures) = 256"
    by (simp_all add: calculateOptimalLayout_multi [OF False])
  from inside le rng show ?thesis
    unfolding r w h by (simp add: glyph_within_def rect_within_def)
qed

text \<open>
  Claim C3: a glyph whose page has a placement in the plan gets x and y moved by the
  placement's x and y and page 0, every other field kept; the document's canvas size
  becomes the plan's, and stitching sets the page count to 1 and the page list to the one
  stitched file. In the scenario of two pages of 256 x 256, the glyph at page 1, (10, 10)
  moves to page 0, (268, 10).
\<close>

theorem remap_with_placement:
  "(\<forall>i pagePosition. i < length (chars fontData) \<and>
        js_index (positions layout) (char_page (chars fontData ! i)) = Some pagePosition \<longrightarrow>
        chars (fst (updateCharacterCoordinates fontData layout)) ! i
          = (chars fontData ! i)\<lparr> char_x := char_x (chars fontData ! i) + pos_x pagePosition,
                                    char_y := char_y (chars fontData ! i) + pos_y pagePosition,
                                    char_page := 0 \<rparr>) \<and>
   common_scaleW (common (fst (updateCharacterCoordinates fontData layout))) = layout_width layout \<and>
   common_scaleH (common (fst (updateCharacterCoordinates fontData layout))) = layout_height layout \<and>
   (let (stitchedImagePath, updated, warnings) = stitchTextures images fontData fontName fieldType
    in chars updated
         = chars (fst (updateCharacterCoordinates fontData (calculateOptimalLayout images))) \<and>
       common_pages (common updated) = 1 \<and>
       common_scaleW (common updated) = layout_width (calculateOptimalLayout images) \<and>
       common_scaleH (common updated) = layout_height (calculateOptimalLayout images) \<and>
       pages updated = [fontName @ ''.'' @ fieldType @ ''.png''] \<and>
       length (pages updated) = 1) \<and>
   (let (stitchedImagePath, updated, warnings) =
          stitchTextures [page256, page256] (doc_with 4 40 [glyph_at 1 10 10])
            ''Ubuntu-Regular'' ''msdf''
    in chars updated = [(glyph_at 1 10 10)\<lparr> char_x := 268, char_y := 10, char_page := 0 \<rparr>] \<and>
       common_scaleW (common updated) = 514 \<and> common_scaleH (common updated) = 256)"
  by (simp add: stitchTextures_result updateCharacterCoordinates_def remapChar_def
      calculateOptimalLayout_multi page256_def glyph_at_def doc_with_def js_index_def)

theorem remap_with_placement_witness:
  "0 < length (chars (doc_with 4 40 [glyph_at 1 10 10])) \<and>
   js_index (positions (calculateOptimalLayout [page256, page256]))
      (char_page (chars (doc_with 4 40 [glyph_at 1 10 10]) ! 0))
     = Some \<lparr> pos_x = 258, pos_y = 0, pos_width = 256, pos_height = 256 \<rparr> \<and>
   chars (fst (updateCharacterCoordinates (doc_with 4 40 [glyph_at 1 10 10])
                 (calculateOptimalLayout [page256, page256]))) ! 0
     = (glyph_at 1 10 10)\<lparr> char_x := 268, char_y := 10, char_page := 0 \<rparr>"
proof -
  let ?doc = "doc_with 4 40 [glyph_at 1 10 10]"
  let ?plan = "calculateOptimalLayout [page256, page256]"
  let ?p = "\<lparr> pos_x = 258, pos_y = 0, pos_width = 256, pos_height = 256 \<rparr>"
  have h1: "0 < length (chars ?doc)"
    by (simp add: doc_with_def)
  have h2: "js_index (positions ?plan) (char_page (chars ?doc ! 0)) = Some ?p"
    by (simp add: doc_with_def glyph_at_def calculateOptimalLayout_multi js_index_def)
  from remap_with_placement [of ?doc ?plan] h1 h2
  have "chars (fst (updateCharacterCoordinates ?doc ?plan)) ! 0
          = (chars ?doc ! 0)\<lparr> char_x := char_x (chars ?doc ! 0) + pos_x ?p,
                               char_y := char_y (chars ?doc ! 0) + pos_y ?p,
                               char_page := 0 \<rparr>"
    by blast
  then show ?thesis using h1 h2
    by (simp add: doc_with_def glyph_at_def)
qed

text \<open>
  Claim C5: a glyph whose page has no placement in the plan is returned with page 0 and
  every other field, x and y among them, unchanged, and a warning naming its page is
  written; the remapper returns a document with as many glyphs as before, writes one
  warning per such glyph, and moves every glyph whose page has a placement as usual.
\<close>

theorem remap_without_placement:
  "(\<forall>i. i < length (chars fontData) \<and>
        js_index (positions layout) (char_page (chars fontData ! i)) = None \<longrightarrow>
        chars (fst (updateCharacterCoordinates fontData layout)) ! i
          = (chars fontData ! i)\<lparr> char_page := 0 \<rparr> \<and>
        NoPositionFound (char_page (chars fontData ! i))
          \<in> set (snd (updateCharacterCoordinates fontData layout))) \<and>
   length (chars (fst (updateCharacterCoordinates fontData layout))) = length (chars fontData) \<and>
   length (snd (updateCharacterCoordinates fontData layout))
     = length (filter (\<lambda>c. js_index (positions layout) (char_page c) = None) (chars fontData)) \<and>
   (\<forall>j pagePosition. j < length (chars fontData) \<and>
        js_index (positions layout) (char_page (chars fontData ! j)) = Some pagePosition \<longrightarrow>
        chars (fst (updateCharacterCoordinates fontData layout)) ! j
          = (chars fontData ! j)\<lparr> char_x := char_x (chars fontData ! j) + pos_x pagePosition,
                                    char_y := char_y (chars fontData ! j) + pos_y pagePosition,
                                    char_page := 0 \<rparr>)"
proof -
  have warn: "NoPositionFound (char_page (cs ! i)) \<in> set (concat (map (remapWarnings layout) cs))"
    if "i < length cs" "js_index (positions layout) (char_page (cs ! i)) = None" for cs i
  proof -
    from that(1) have "cs ! i \<in> set cs" by simp
    moreover from that(2)
    have "NoPositionFound (char_page (cs ! i)) \<in> set (remapWarnings layout (cs ! i))"
      by (simp add: remapWarnings_def)
    ultimately show ?thesis by auto
  qed
  have cnt: "length (concat (map (remapWarnings layout) cs))
               = length (filter (\<lambda>c. js_index (positions layout) (char_page c) = None) cs)" for cs
    by (induction cs) (auto simp: remapWarnings_def split: option.splits)
  show ?thesis
    using warn [of _ "chars fontData"]
    by (simp add: updateCharacterCoordinates_def remapChar_def cnt del: set_concat)
qed

theorem remap_without_placement_witness:
  "js_index (positions (calculateOptimalLayout [page256, page256]))
      (char_page (chars (doc_with 4 40 [glyph_at 5 10 10, glyph_at 1 10 10]) ! 0)) = None \<and>
   updateCharacterCoordinates (doc_with 4 40 [glyph_at 5 10 10, glyph_at 1 10 10])
      (calculateOptimalLayout [page256, page256])
     = (doc_with 4 40 [(glyph_at 5 10 10)\<lparr> char_page := 0 \<rparr>,
                       (glyph_at 1 10 10)\<lparr> char_x := 268, char_page := 0 \<rparr>]
          \<lparr> common := \<lparr> common_lineHeight = 48, common_base = 40, common_scaleW = 514,
                         common_scaleH = 256, common_pages = 2 \<rparr> \<rparr>,
        [NoPositionFound 5])"
proof -
  let ?doc = "doc_with 4 40 [glyph_at 5 10 10, glyph_at 1 10 10]"
  let ?plan = "calculateOptimalLayout [page256, page256]"
  have h: "js_index (positions ?plan) (char_page (chars ?doc ! 0)) = None"
    by (simp add: doc_with_def glyph_at_def calculateOptimalLayout_multi js_index_def)
  have h0: "0 < length (chars ?doc)"
    by (simp add: doc_with_def)
  from remap_without_placement [of ?doc ?plan] h h0
  have "chars (fst (updateCharacterCoordinates ?doc ?plan)) ! 0 = (chars ?doc ! 0)\<lparr> char_page := 0 \<rparr>"
    by blast
  then show ?thesis using h
    by (simp add: updateCharacterCoordinates_def remapChar_def remapWarnings_def doc_with_def
        glyph_at_def calculateOptimalLayout_multi js_index_def)
qed

section \<open>The metrics adjuster\<close>

lemma js_sar_1_in_range:
  assumes "- (2 ^ 31) \<le> d" and "d < 2 ^ 31"
  shows "js_sar d 1 = d div 2"
proof -
  have "signed_take_bit 31 d = d"
    using assms by (simp add: signed_take_bit_int_eq_self)
  then have "sint (word_of_int d :: 32 word) = d"
    by (simp add: signed_of_int)
  then show ?thesis
    by (simp add: js_sar_def sint_signed_drop_bit_eq drop_bit_eq_div)
qed

lemma js_sar_4: "js_sar 4 1 = 2" "js_sar 4 (Suc 0) = 2"
  using js_sar_1_in_range [of 4] by simp_all

lemma js_sar_1: "js_sar 1 1 = 0" "js_sar 1 (Suc 0) = 0"
  using js_sar_1_in_range [of 1] by simp_all

lemma js_sar_0: "js_sar 0 1 = 0" "js_sar 0 (Suc 0) = 0"
  using js_sar_1_in_range [of 0] by simp_all

text \<open>Outside the signed 32-bit range the shift wraps: \<open>2 ^ 31 >> 1\<close> is \<open>- (2 ^ 30)\<close>.\<close>

lemma js_sar_wrap: "js_sar 2147483648 1 = - 1073741824"
  by (simp add: js_sar_def sint_signed_drop_bit_eq drop_bit_eq_div signed_of_int)

lemma adjustSingleFont_doc:
  "fst (adjustSingleFont load fontInfo json) =
     json\<lparr> common := (common json)
              \<lparr> common_base := common_base (common json) - js_sar (distanceRange json) 1 \<rparr>,
            chars := map (\<lambda>c. c\<lparr> char_yoffset := char_yoffset c
                                    - 2 * js_sar (distanceRange json) 1 \<rparr>) (chars json),
            lightningMetrics := Some (load (sdf_fontPath fontInfo)) \<rparr>"
  by (simp add: adjustSingleFont_def Let_def algebra_simps)

lemma adjustFontFamily_doc:
  assumes "styles fontInfo \<noteq> []"
  shows "map_option fst (adjustFontFamily load fontInfo json) =
     Some ((if common_base (common json) \<noteq> 0
            then json\<lparr> common := (common json)\<lparr> common_base := common_base (common json)
                        - js_sar (if distanceRange json \<noteq> 0 then distanceRange json else 4) 1 \<rparr> \<rparr>
            else json)
           \<lparr> chars := map (\<lambda>c. c\<lparr> char_yoffset := char_yoffset c
                        - 2 * js_sar (if distanceRange json \<noteq> 0 then distanceRange json else 4) 1 \<rparr>)
                         (chars json),
             lightningMetrics := Some (load (fontPath (hd (styles fontInfo)))) \<rparr>)"
  using assms by (cases "styles fontInfo") (simp_all add: adjustFontFamily_def Let_def algebra_simps)

lemma adjustFontFamily_base_chars:
  assumes "styles familyInfo \<noteq> []" and "common_base (common json) \<noteq> 0"
  shows "map_option (\<lambda>r. (common_base (common (fst r)), chars (fst r)))
           (adjustFontFamily load familyInfo json)
         = Some (common_base (common json)
                   - js_sar (if distanceRange json \<noteq> 0 then distanceRange json else 4) 1,
                 map (\<lambda>c. c\<lparr> char_yoffset := char_yoffset c
                        - 2 * js_sar (if distanceRange json \<noteq> 0 then distanceRange json else 4) 1 \<rparr>)
                     (chars json))"
proof -
  have "map_option (\<lambda>r. (common_base (common (fst r)), chars (fst r)))
          (adjustFontFamily load familyInfo json)
        = map_option (\<lambda>j. (common_base (common j), chars j))
            (map_option fst (adjustFontFamily load familyInfo json))"
    by (simp add: option.map_comp comp_def)
  then show ?thesis
    using assms by (simp add: adjustFontFamily_doc)
qed

text \<open>
  Outside the distance ranges the generator passes to the rasterizer (a positive number of
  pixels, 4 unless overridden): the family correction takes the fallback range 4 for a
  document whose distance range is 0, and the shift wraps for a range of \<open>2 ^ 31\<close>.
\<close>

lemma bias_correction_outside_range:
  "map_option (common_base \<circ> common \<circ> fst)
      (adjustFontFamily sample_load (sample_family [''Regular'']) (doc_with 0 40 [glyph_at 0 10 10]))
     = Some 38 \<and>
   map_option (map char_yoffset \<circ> chars \<circ> fst)
      (adjustFontFamily sample_load (sample_family [''Regular'']) (doc_with 0 40 [glyph_at 0 10 10]))
     = Some [6] \<and>
   js_sar (distanceRange (doc_with 0 40 [glyph_at 0 10 10])) 1 = 0 \<and>
   js_sar 2147483648 1 = - 1073741824 \<and>
   js_sar 2147483648 1 \<noteq> 2147483648 div 2"
proof -
  have ne: "styles (sample_family [''Regular'']) \<noteq> []"
    by (simp add: sample_family_def)
  have b: "map_option (common_base \<circ> common \<circ> fst) (adjustFontFamily load familyInfo json)
           = map_option (common_base \<circ> common) (map_option fst (adjustFontFamily load familyInfo json))"
    and c: "map_option (map char_yoffset \<circ> chars \<circ> fst) (adjustFontFamily load familyInfo json)
           = map_option (map char_yoffset \<circ> chars) (map_option fst (adjustFontFamily load familyInfo json))"
    for load familyInfo json
    by (simp_all add: option.map_comp comp_def)
  show ?thesis
    using js_sar_wrap
    by (simp add: b c adjustFontFamily_doc [OF ne] doc_with_def glyph_at_def js_sar_4 js_sar_0)
qed

text \<open>
  Claim C6: for every metadata document with distance range d, the correction takes
  \<open>pad = d >> 1\<close>, which is the floor of d / 2 for d a signed 32-bit integer, subtracts
  pad once from \<open>common.base\<close> and \<open>2 * pad\<close> from the \<open>yoffset\<close> of every glyph, and
  changes no other field of a glyph. The single-font correction does so for every
  document; the family correction for every family with a style and every document whose
  distance range and baseline are not 0, as the rasterizer's documents are (for a range
  of 0 it takes the fallback range 4). With a distance range of 4, a baseline of 40
  becomes 38 and an offset of 10 becomes 6, in both corrections.
\<close>

theorem bias_correction:
  "(let pad = js_sar (distanceRange json) 1;
        adjusted = fst (adjustSingleFont load fontInfo json)
    in common_base (common adjusted) = common_base (common json) - pad \<and>
       chars adjusted = map (\<lambda>c. c\<lparr> char_yoffset := char_yoffset c - 2 * pad \<rparr>) (chars json) \<and>
       (- (2 ^ 31) \<le> distanceRange json \<and> distanceRange json < 2 ^ 31 \<longrightarrow>
          pad = distanceRange json div 2) \<and>
       (styles familyInfo \<noteq> [] \<and> distanceRange json \<noteq> 0 \<and> common_base (common json) \<noteq> 0 \<longrightarrow>
          map_option (\<lambda>r. (common_base (common (fst r)), chars (fst r)))
             (adjustFontFamily load familyInfo json)
            = Some (common_base (common json) - pad,
                    map (\<lambda>c. c\<lparr> char_yoffset := char_yoffset c - 2 * pad \<rparr>) (chars json))) \<and>
       (styles familyInfo \<noteq> [] \<and> distanceRange json = 0 \<and> common_base (common json) \<noteq> 0 \<longrightarrow>
          map_option (\<lambda>r. (common_base (common (fst r)), chars (fst r)))
             (adjustFontFamily load familyInfo json)
            = Some (common_base (common json) - 2,
                    map (\<lambda>c. c\<lparr> char_yoffset := char_yoffset c - 4 \<rparr>) (chars json)))) \<and>
   (let adjusted = fst (adjustSingleFont sample_load sample_single (doc_with 4 40 [glyph_at 0 10 10]))
    in common_base (common adjusted) = 38 \<and>
       chars adjusted = [(glyph_at 0 10 10)\<lparr> char_yoffset := 6 \<rparr>]) \<and>
   map_option (\<lambda>r. (common_base (common (fst r)), chars (fst r)))
      (adjustFontFamily sample_load (sample_family [''Regular'', ''Bold''])
         (doc_with 4 40 [glyph_at 0 10 10]))
     = Some (38, [(glyph_at 0 10 10)\<lparr> char_yoffset := 6 \<rparr>])"
proof -
  have ne: "styles (sample_family [''Regular'', ''Bold'']) \<noteq> []"
    by (simp add: sample_family_def)
  have b: "common_base (common (doc_with 4 40 [glyph_at 0 10 10])) \<noteq> 0"
    by (simp add: doc_with_def)
  have ex: "map_option (\<lambda>r. (common_base (common (fst r)), chars (fst r)))
      (adjustFontFamily sample_load (sample_family [''Regular'', ''Bold''])
         (doc_with 4 40 [glyph_at 0 10 10]))
     = Some (38, [(glyph_at 0 10 10)\<lparr> char_yoffset := 6 \<rparr>])"
    unfolding adjustFontFamily_base_chars [OF ne b]
    by (simp add: doc_with_def glyph_at_def js_sar_4)
  show ?thesis
    unfolding Let_def
    apply (intro conjI impI)
    subgoal by (simp add: adjustSingleFont_doc)
    subgoal by (simp add: adjustSingleFont_doc)
    subgoal using js_sar_1_in_range [of "distanceRange json"] by simp
    subgoal by (simp add: adjustFontFamily_base_chars)
    subgoal by (simp add: adjustFontFamily_base_chars js_sar_4)
    subgoal by (simp add: adjustSingleFont_doc doc_with_def js_sar_4)
    subgoal by (simp add: adjustSingleFont_doc doc_with_def glyph_at_def js_sar_4)
    subgoal by (rule ex)
    done
qed

theorem bias_correction_witness:
  "- (2 ^ 31) \<le> distanceRange (doc_with 4 40 [glyph_at 0 10 10]) \<and>
   distanceRange (doc_with 4 40 [glyph_at 0 10 10]) < 2 ^ 31 \<and>
   styles (sample_family [''Regular'']) \<noteq> [] \<and>
   distanceRange (doc_with 4 40 [glyph_at 0 10 10]) \<noteq> 0 \<and>
   common_base (common (doc_with 4 40 [glyph_at 0 10 10])) \<noteq> 0 \<and>
   js_sar (distanceRange (doc_with 4 40 [glyph_at 0 10 10])) 1 = 2 \<and>
   map_option (\<lambda>r. (common_base (common (fst r)), map char_yoffset (chars (fst r))))
      (adjustFontFamily sample_load (sample_family [''Regular'']) (doc_with 4 40 [glyph_at 0 10 10]))
     = Some (38, [6])"
proof -
  let ?doc = "doc_with 4 40 [glyph_at 0 10 10]"
  let ?fam = "sample_family [''Regular'']"
  have h: "- (2 ^ 31) \<le> distanceRange ?doc" "distanceRange ?doc < 2 ^ 31"
      "styles ?fam \<noteq> []" "distanceRange ?doc \<noteq> 0" "common_base (common ?doc) \<noteq> 0"
    by (simp_all add: doc_with_def sample_family_def)
  from bias_correction [of ?doc sample_load sample_single ?fam] h
  have pad: "js_sar (distanceRange ?doc) 1 = distanceRange ?doc div 2"
    and fam: "map_option (\<lambda>r. (common_base (common (fst r)), chars (fst r)))
          (adjustFontFamily sample_load ?fam ?doc)
        = Some (common_base (common ?doc) - js_sar (distanceRange ?doc) 1,
                map (\<lambda>c. c\<lparr> char_yoffset := char_yoffset c - 2 * js_sar (distanceRange ?doc) 1 \<rparr>)
                    (chars ?doc))"
    unfolding Let_def by blast+
  from pad have p2: "js_sar (distanceRange ?doc) 1 = 2"
    by (simp add: doc_with_def)
  have "map_option (\<lambda>r. (common_base (common (fst r)), map char_yoffset (chars (fst r))))
          (adjustFontFamily sample_load ?fam ?doc)
        = map_option (\<lambda>p. (fst p, map char_yoffset (snd p)))
            (map_option (\<lambda>r. (common_base (common (fst r)), chars (fst r)))
              (adjustFontFamily sample_load ?fam ?doc))"
    by (simp add: option.map_comp comp_def)
  also have "\<dots> = Some (38, [6])"
    unfolding fam p2 by (simp add: doc_with_def glyph_at_def)
  finally show ?thesis using h p2 by simp
qed

text \<open>
  Claim C7, as amended (the correction applied twice). The claim as stated fails for a
  document whose pad is 0, as with distance range 1: there the correction changes neither
  the baseline nor an offset, and applying it twice gives what applying it once gives.
\<close>

theorem bias_correction_twice_counterexample:
  "fst (adjustSingleFont sample_load sample_single
         (fst (adjustSingleFont sample_load sample_single (doc_with 1 40 [glyph_at 0 10 10]))))
     = fst (adjustSingleFont sample_load sample_single (doc_with 1 40 [glyph_at 0 10 10]))"
  by (simp add: adjustSingleFont_doc doc_with_def js_sar_1)

text \<open>
  Claim C7, amended: the correction has no guard against being applied again: the second
  application subtracts pad from the baseline and \<open>2 * pad\<close> from every offset once more.
  For every document whose pad, \<open>distanceRange >> 1\<close>, is not 0, applying it twice gives a
  document different from applying it once; when the pad is 0 the two are equal.
\<close>

theorem bias_correction_twice:
  "(let pad = js_sar (distanceRange json) 1;
        once = fst (adjustSingleFont load fontInfo json);
        twice = fst (adjustSingleFont load fontInfo once)
    in common_base (common once) = common_base (common json) - pad \<and>
       common_base (common twice) = common_base (common json) - 2 * pad \<and>
       chars twice = map (\<lambda>c. c\<lparr> char_yoffset := char_yoffset c - 4 * pad \<rparr>) (chars json) \<and>
       (pad \<noteq> 0 \<longrightarrow> twice \<noteq> once) \<and>
       (pad = 0 \<longrightarrow> twice = once))"
proof -
  let ?pad = "js_sar (distanceRange json) 1"
  let ?once = "fst (adjustSingleFont load fontInfo json)"
  let ?twice = "fst (adjustSingleFont load fontInfo ?once)"
  have b1: "common_base (common ?once) = common_base (common json) - ?pad"
    by (simp add: adjustSingleFont_doc)
  have b2: "common_base (common ?twice) = common_base (common json) - 2 * ?pad"
    by (simp add: adjustSingleFont_doc)
  have c2: "chars ?twice = map (\<lambda>c. c\<lparr> char_yoffset := char_yoffset c - 4 * ?pad \<rparr>) (chars json)"
    by (simp add: adjustSingleFont_doc comp_def)
  have ne: "?twice \<noteq> ?once" if "?pad \<noteq> 0"
  proof
    assume "?twice = ?once"
    then have "common_base (common ?twice) = common_base (common ?once)" by simp
    with b1 b2 that show False by simp
  qed
  have eq: "?twice = ?once" if "?pad = 0"
    using that by (simp add: adjustSingleFont_doc)
  show ?thesis
    unfolding Let_def using b1 b2 c2 ne eq by blast
qed

theorem bias_correction_twice_witness:
  "js_sar (distanceRange (doc_with 4 40 [glyph_at 0 10 10])) 1 \<noteq> 0 \<and>
   fst (adjustSingleFont sample_load sample_single
         (fst (adjustSingleFont sample_load sample_single (doc_with 4 40 [glyph_at 0 10 10]))))
     \<noteq> fst (adjustSingleFont sample_load sample_single (doc_with 4 40 [glyph_at 0 10 10]))"
proof -
  have h: "js_sar (distanceRange (doc_with 4 40 [glyph_at 0 10 10])) 1 \<noteq> 0"
    by (simp add: doc_with_def js_sar_4)
  with bias_correction_twice [of "doc_with 4 40 [glyph_at 0 10 10]" sample_load sample_single]
  show ?thesis unfolding Let_def by blast
qed

lemma metricsFiles_snoc_json: "metricsFiles (ws @ [(p, FontJson j)]) = metricsFiles ws"
  by (induction ws rule: metricsFiles.induct) simp_all

lemma metricsFiles_map:
  "metricsFiles (map (\<lambda>item. (f item, MetricsJson (g item))) xs) = map (\<lambda>item. (f item, g item)) xs"
  by (induction xs) simp_all

lemma metrics_eq_iff:
  "(ascender a = ascender b \<and> descender a = descender b \<and> lineGap a = lineGap b
      \<and> unitsPerEm a = unitsPerEm b) = (a = (b :: font_metrics))"
  by (auto intro: font_metrics.equality)

lemma adjustFontFamily_result:
  assumes "styles fontInfo \<noteq> []"
  shows "\<exists>adjusted writes. adjustFontFamily load fontInfo json = Some (adjusted, writes) \<and>
           lightningMetrics adjusted = Some (load (fontPath (hd (styles fontInfo)))) \<and>
           metricsFiles writes =
             (if \<forall>s\<in>set (styles fontInfo). load (fontPath s) = load (fontPath (hd (styles fontInfo)))
              then [(path_join (path_join (family_dstDir fontInfo) metricsSubDir)
                       (fontFamily fontInfo @ ''.metrics.json''),
                     load (fontPath (hd (styles fontInfo))))]
              else map (\<lambda>s. (path_join (path_join (family_dstDir fontInfo) metricsSubDir)
                                (fontFamily fontInfo @ ''-'' @ fontStyle s @ ''.metrics.json''),
                              load (fontPath s)))
                       (styles fontInfo))"
proof -
  from assms obtain firstStyle rest where st: "styles fontInfo = firstStyle # rest"
    by (cases "styles fontInfo") auto
  show ?thesis
    by (simp add: adjustFontFamily_def st Let_def metricsFiles_snoc_json metricsFiles_map
        metrics_eq_iff list_all_iff comp_def)
qed

text \<open>A family without styles is skipped: nothing is adjusted and nothing is written.\<close>

lemma adjustFontFamily_no_styles:
  "styles fontInfo = [] \<Longrightarrow> adjustFontFamily load fontInfo json = None"
  by (simp add: adjustFontFamily_def)

lemma path_join_inject:
  "x \<noteq> [] \<Longrightarrow> y \<noteq> [] \<Longrightarrow> path_join d x = path_join d y \<Longrightarrow> x = y"
  by (simp add: path_join_def split: if_splits)

lemma sample_metrics_dir: "path_join ''font-dst'' metricsSubDir = ''font-dst/metrics''"
  by (simp add: path_join_def metricsSubDir_def)

lemma sample_metrics_path: "x \<noteq> [] \<Longrightarrow> path_join ''font-dst/metrics'' x = ''font-dst/metrics/'' @ x"
  by (simp add: path_join_def)

lemma sample_metrics_differ: "sample_metrics 1000 \<noteq> sample_metrics 2048"
  "sample_metrics 2048 \<noteq> sample_metrics 1000"
  by (simp_all add: sample_metrics_def)

lemma shared_not_style_path:
  "path_join d (fam @ ''.metrics.json'') \<noteq> path_join d (fam @ ''-'' @ l @ ''.metrics.json'')"
proof
  assume "path_join d (fam @ ''.metrics.json'') = path_join d (fam @ ''-'' @ l @ ''.metrics.json'')"
  then have "fam @ ''.metrics.json'' = fam @ ''-'' @ l @ ''.metrics.json''"
    by (rule path_join_inject [rotated 2]) simp_all
  then show False by simp
qed

lemma style_paths_distinct:
  assumes "distinct (map fontStyle ss)"
  shows "distinct (map (\<lambda>s. path_join d (fam @ ''-'' @ fontStyle s @ ''.metrics.json'')) ss)"
proof -
  let ?g = "\<lambda>l. path_join d (fam @ ''-'' @ l @ ''.metrics.json'')"
  have inj: "inj ?g"
  proof (rule injI)
    fix l l' assume "?g l = ?g l'"
    then have "fam @ ''-'' @ l @ ''.metrics.json'' = fam @ ''-'' @ l' @ ''.metrics.json''"
      by (rule path_join_inject [rotated 2]) simp_all
    then show "l = l'" by simp
  qed
  have i: "inj_on ?g (set (map fontStyle ss))"
    using inj by (rule inj_on_subset) simp
  have "distinct (map ?g (map fontStyle ss))"
    unfolding distinct_map [of ?g "map fontStyle ss"] using assms i by blast
  then show ?thesis
    by (simp add: comp_def)
qed

text \<open>
  Claim C10, as amended (metrics reconciliation). The claim as stated fails for a family
  in which two fonts carry the same style label, here Ubuntu-Regular.otf with 1000 units
  per em and Ubuntu-Regular.ttf with 2048, beside a Bold: the metrics differ, three writes
  are made, two of them to \<open>Ubuntu-Regular.metrics.json\<close>, so two metrics files exist
  for three styles.
\<close>

theorem metrics_reconciliation_counterexample:
  "length (styles sample_dup_family) = 3 \<and>
   map_option (metricsFiles \<circ> snd)
      (adjustFontFamily sample_dup_load sample_dup_family (doc_with 4 40 []))
     = Some [(''font-dst/metrics/Ubuntu-Regular.metrics.json'', sample_metrics 1000),
             (''font-dst/metrics/Ubuntu-Regular.metrics.json'', sample_metrics 2048),
             (''font-dst/metrics/Ubuntu-Bold.metrics.json'', sample_metrics 2048)] \<and>
   map_option (metricsFileNames \<circ> snd)
      (adjustFontFamily sample_dup_load sample_dup_family (doc_with 4 40 []))
     = Some [''font-dst/metrics/Ubuntu-Regular.metrics.json'',
             ''font-dst/metrics/Ubuntu-Bold.metrics.json'']"
proof -
  have ne: "styles sample_dup_family \<noteq> []"
    by (simp add: sample_dup_family_def)
  from adjustFontFamily_result [OF ne, of sample_dup_load "doc_with 4 40 []"]
  obtain adjusted writes where
    r: "adjustFontFamily sample_dup_load sample_dup_family (doc_with 4 40 []) = Some (adjusted, writes)"
    and f: "metricsFiles writes =
              (if \<forall>s\<in>set (styles sample_dup_family).
                    sample_dup_load (fontPath s) = sample_dup_load (fontPath (hd (styles sample_dup_family)))
               then [(path_join (path_join (family_dstDir sample_dup_family) metricsSubDir)
                        (fontFamily sample_dup_family @ ''.metrics.json''),
                      sample_dup_load (fontPath (hd (styles sample_dup_family))))]
               else map (\<lambda>s. (path_join (path_join (family_dstDir sample_dup_family) metricsSubDir)
                                 (fontFamily sample_dup_family @ ''-'' @ fontStyle s @ ''.metrics.json''),
                               sample_dup_load (fontPath s)))
                        (styles sample_dup_family))"
    by blast
  have f': "metricsFiles writes
      = [(''font-dst/metrics/Ubuntu-Regular.metrics.json'', sample_metrics 1000),
         (''font-dst/metrics/Ubuntu-Regular.metrics.json'', sample_metrics 2048),
         (''font-dst/metrics/Ubuntu-Bold.metrics.json'', sample_metrics 2048)]"
    unfolding f
    by (simp add: sample_dup_family_def sample_dup_load_def sample_metrics_dir sample_metrics_path
        sample_metrics_differ)
  show ?thesis
    by (simp add: r f' metricsFileNames_def) (simp add: sample_dup_family_def)
qed

text \<open>
  Claim C10, amended: for every family with a style, the first style's metrics are embedded
  in the family's document. When every style's metrics equal the first style's, exactly one
  metrics file is written, the shared \<open>family.metrics.json\<close> holding those metrics. When
  some style's metrics differ, one write is made per style, to
  \<open>family-style.metrics.json\<close> with that style's metrics, and none to the shared file; when
  moreover the style labels are pairwise distinct, these are as many files as there are
  styles (styles with the same label share a file). Three styles with the metrics
  1900, -500, 100, 2048 give the one shared file; with a different unitsPerEm in one style
  they give three files.
\<close>

theorem metrics_reconciliation:
  "(styles fontInfo \<noteq> [] \<longrightarrow>
      (case adjustFontFamily load fontInfo json of
         None \<Rightarrow> False
       | Some (adjusted, writes) \<Rightarrow>
           lightningMetrics adjusted = Some (load (fontPath (hd (styles fontInfo)))) \<and>
           ((\<forall>s\<in>set (styles fontInfo). load (fontPath s) = load (fontPath (hd (styles fontInfo)))) \<longrightarrow>
              metricsFiles writes =
                [(path_join (path_join (family_dstDir fontInfo) metricsSubDir)
                    (fontFamily fontInfo @ ''.metrics.json''),
                  load (fontPath (hd (styles fontInfo))))] \<and>
              metricsFileNames writes =
                [path_join (path_join (family_dstDir fontInfo) metricsSubDir)
                    (fontFamily fontInfo @ ''.metrics.json'')]) \<and>
           ((\<exists>s\<in>set (styles fontInfo). load (fontPath s) \<noteq> load (fontPath (hd (styles fontInfo)))) \<longrightarrow>
              metricsFiles writes =
                map (\<lambda>s. (path_join (path_join (family_dstDir fontInfo) metricsSubDir)
                            (fontFamily fontInfo @ ''-'' @ fontStyle s @ ''.metrics.json''),
                          load (fontPath s)))
                    (styles fontInfo) \<and>
              path_join (path_join (family_dstDir fontInfo) metricsSubDir)
                  (fontFamily fontInfo @ ''.metrics.json'')
                \<notin> set (metricsFileNames writes) \<and>
              (distinct (map fontStyle (styles fontInfo)) \<longrightarrow>
                 metricsFileNames writes =
                   map (\<lambda>s. path_join (path_join (family_dstDir fontInfo) metricsSubDir)
                              (fontFamily fontInfo @ ''-'' @ fontStyle s @ ''.metrics.json''))
                       (styles fontInfo) \<and>
                 length (metricsFileNames writes) = length (styles fontInfo))))) \<and>
   map_option (metricsFiles \<circ> snd)
      (adjustFontFamily sample_load (sample_family [''Regular'', ''Bold'', ''Light''])
         (doc_with 4 40 []))
     = Some [(''font-dst/metrics/Ubuntu.metrics.json'', sample_metrics 2048)] \<and>
   map_option (metricsFiles \<circ> snd)
      (adjustFontFamily sample_load (sample_family [''Regular'', ''Bold'', ''Italic''])
         (doc_with 4 40 []))
     = Some [(''font-dst/metrics/Ubuntu-Regular.metrics.json'', sample_metrics 2048),
             (''font-dst/metrics/Ubuntu-Bold.metrics.json'', sample_metrics 2048),
             (''font-dst/metrics/Ubuntu-Italic.metrics.json'', sample_metrics 1000)]"
proof (intro conjI impI)
  assume ne: "styles fontInfo \<noteq> []"
  let ?first = "load (fontPath (hd (styles fontInfo)))"
  let ?dir = "path_join (family_dstDir fontInfo) metricsSubDir"
  let ?shared = "path_join ?dir (fontFamily fontInfo @ ''.metrics.json'')"
  let ?name = "\<lambda>s. path_join ?dir (fontFamily fontInfo @ ''-'' @ fontStyle s @ ''.metrics.json'')"
  let ?same = "\<forall>s\<in>set (styles fontInfo). load (fontPath s) = ?first"
  from adjustFontFamily_result [OF ne, of load json] obtain adjusted writes where
    r: "adjustFontFamily load fontInfo json = Some (adjusted, writes)"
    and m: "lightningMetrics adjusted = Some ?first"
    and f: "metricsFiles writes =
              (if ?same then [(?shared, ?first)]
               else map (\<lambda>s. (?name s, load (fontPath s))) (styles fontInfo))"
    by blast
  have c1: "metricsFiles writes = [(?shared, ?first)] \<and> metricsFileNames writes = [?shared]"
    if ?same
    using that f by (simp add: metricsFileNames_def)
  have c2: "metricsFiles writes = map (\<lambda>s. (?name s, load (fontPath s))) (styles fontInfo) \<and>
            ?shared \<notin> set (metricsFileNames writes) \<and>
            (distinct (map fontStyle (styles fontInfo)) \<longrightarrow>
               metricsFileNames writes = map ?name (styles fontInfo) \<and>
               length (metricsFileNames writes) = length (styles fontInfo))"
    if d: "\<exists>s\<in>set (styles fontInfo). load (fontPath s) \<noteq> ?first"
  proof -
    from d have "\<not> ?same" by blast
    with f have w: "metricsFiles writes = map (\<lambda>s. (?name s, load (fontPath s))) (styles fontInfo)"
      by simp
    then have names: "map fst (metricsFiles writes) = map ?name (styles fontInfo)"
      by (simp add: comp_def)
    have "?shared \<notin> set (map ?name (styles fontInfo))"
      using shared_not_style_path [of ?dir "fontFamily fontInfo"] by auto
    then have n: "?shared \<notin> set (metricsFileNames writes)"
      by (simp add: metricsFileNames_def names)
    have "metricsFileNames writes = map ?name (styles fontInfo)"
      if "distinct (map fontStyle (styles fontInfo))"
      using style_paths_distinct [OF that, of ?dir "fontFamily fontInfo"]
      by (simp add: metricsFileNames_def names)
    with w n show ?thesis by simp
  qed
  show "case adjustFontFamily load fontInfo json of
         None \<Rightarrow> False
       | Some (adjusted, writes) \<Rightarrow>
           lightningMetrics adjusted = Some (load (fontPath (hd (styles fontInfo)))) \<and>
           ((\<forall>s\<in>set (styles fontInfo). load (fontPath s) = load (fontPath (hd (styles fontInfo)))) \<longrightarrow>
              metricsFiles writes =
                [(path_join (path_join (family_dstDir fontInfo) metricsSubDir)
                    (fontFamily fontInfo @ ''.metrics.json''),
                  load (fontPath (hd (styles fontInfo))))] \<and>
              metricsFileNames writes =
                [path_join (path_join (family_dstDir fontInfo) metricsSubDir)
                    (fontFamily fontInfo @ ''.metrics.json'')]) \<and>
           ((\<exists>s\<in>set (styles fontInfo). load (fontPath s) \<noteq> load (fontPath (hd (styles fontInfo)))) \<longrightarrow>
              metricsFiles writes =
                map (\<lambda>s. (path_join (path_join (family_dstDir fontInfo) metricsSubDir)
                            (fontFamily fontInfo @ ''-'' @ fontStyle s @ ''.metrics.json''),
                          load (fontPath s)))
                    (styles fontInfo) \<and>
              path_join (path_join (family_dstDir fontInfo) metricsSubDir)
                  (fontFamily fontInfo @ ''.metrics.json'')
                \<notin> set (metricsFileNames writes) \<and>
              (distinct (map fontStyle (styles fontInfo)) \<longrightarrow>
                 metricsFileNames writes =
                   map (\<lambda>s. path_join (path_join (family_dstDir fontInfo) metricsSubDir)
                              (fontFamily fontInfo @ ''-'' @ fontStyle s @ ''.metrics.json''))
                       (styles fontInfo) \<and>
                 length (metricsFileNames writes) = length (styles fontInfo)))"
    unfolding r using m c1 c2 by simp
next
  have ne: "styles (sample_family [''Regular'', ''Bold'', ''Light'']) \<noteq> []"
    by (simp add: sample_family_def)
  from adjustFontFamily_result [OF ne, of sample_load "doc_with 4 40 []"]
  obtain adjusted writes where
    r: "adjustFontFamily sample_load (sample_family [''Regular'', ''Bold'', ''Light''])
          (doc_with 4 40 []) = Some (adjusted, writes)"
    and f: "metricsFiles writes = [(''font-dst/metrics/Ubuntu.metrics.json'', sample_metrics 2048)]"
    by (auto simp: sample_family_def sample_load_def sample_metrics_dir sample_metrics_path)
  show "map_option (metricsFiles \<circ> snd)
      (adjustFontFamily sample_load (sample_family [''Regular'', ''Bold'', ''Light''])
         (doc_with 4 40 []))
     = Some [(''font-dst/metrics/Ubuntu.metrics.json'', sample_metrics 2048)]"
    by (simp add: r f)
next
  have ne: "styles (sample_family [''Regular'', ''Bold'', ''Italic'']) \<noteq> []"
    by (simp add: sample_family_def)
  from adjustFontFamily_result [OF ne, of sample_load "doc_with 4 40 []"]
  obtain adjusted writes where
    r: "adjustFontFamily sample_load (sample_family [''Regular'', ''Bold'', ''Italic''])
          (doc_with 4 40 []) = Some (adjusted, writes)"
    and f: "metricsFiles writes
             = [(''font-dst/metrics/Ubuntu-Regular.metrics.json'', sample_metrics 2048),
                (''font-dst/metrics/Ubuntu-Bold.metrics.json'', sample_metrics 2048),
                (''font-dst/metrics/Ubuntu-Italic.metrics.json'', sample_metrics 1000)]"
    by (auto simp: sample_family_def sample_load_def sample_metrics_dir sample_metrics_path
        sample_metrics_differ)
  show "map_option (metricsFiles \<circ> snd)
      (adjustFontFamily sample_load (sample_family [''Regular'', ''Bold'', ''Italic''])
         (doc_with 4 40 []))
     = Some [(''font-dst/metrics/Ubuntu-Regular.metrics.json'', sample_metrics 2048),
             (''font-dst/metrics/Ubuntu-Bold.metrics.json'', sample_metrics 2048),
             (''font-dst/metrics/Ubuntu-Italic.metrics.json'', sample_metrics 1000)]"
    by (simp add: r f)
qed

theorem metrics_reconciliation_witness:
  "styles (sample_family [''Regular'', ''Bold'', ''Italic'']) \<noteq> [] \<and>
   sample_load (fontPath (styles (sample_family [''Regular'', ''Bold'', ''Italic'']) ! 2))
     \<noteq> sample_load (fontPath (hd (styles (sample_family [''Regular'', ''Bold'', ''Italic''])))) \<and>
   distinct (map fontStyle (styles (sample_family [''Regular'', ''Bold'', ''Italic'']))) \<and>
   map_option (metricsFileNames \<circ> snd)
      (adjustFontFamily sample_load (sample_family [''Regular'', ''Bold'', ''Italic''])
         (doc_with 4 40 []))
     = Some [''font-dst/metrics/Ubuntu-Regular.metrics.json'',
             ''font-dst/metrics/Ubuntu-Bold.metrics.json'',
             ''font-dst/metrics/Ubuntu-Italic.metrics.json'']"
proof -
  let ?fam = "sample_family [''Regular'', ''Bold'', ''Italic'']"
  have h0: "styles ?fam \<noteq> []"
    by (simp add: sample_family_def)
  have h1: "sample_load (fontPath (styles ?fam ! 2)) \<noteq> sample_load (fontPath (hd (styles ?fam)))"
    by (simp add: sample_family_def sample_load_def sample_metrics_differ)
  have h2: "\<exists>s\<in>set (styles ?fam). sample_load (fontPath s) \<noteq> sample_load (fontPath (hd (styles ?fam)))"
    by (simp add: sample_family_def sample_load_def sample_metrics_differ)
  have h3: "distinct (map fontStyle (styles ?fam))"
    by (simp add: sample_family_def)
  note t = metrics_reconciliation [of ?fam sample_load "doc_with 4 40 []",
      THEN conjunct1, rule_format, OF h0]
  obtain adjusted writes where
    r: "adjustFontFamily sample_load ?fam (doc_with 4 40 []) = Some (adjusted, writes)"
  proof (cases "adjustFontFamily sample_load ?fam (doc_with 4 40 [])")
    case None
    with t show ?thesis by simp
  next
    case (Some p)
    then show ?thesis using that by (cases p) simp
  qed
  from t h2 h3 have
    n: "metricsFileNames writes =
              map (\<lambda>s. path_join (path_join (family_dstDir ?fam) metricsSubDir)
                         (fontFamily ?fam @ ''-'' @ fontStyle s @ ''.metrics.json''))
                  (styles ?fam)"
    unfolding r by simp
  have "map_option (metricsFileNames \<circ> snd) (adjustFontFamily sample_load ?fam (doc_with 4 40 []))
          = Some [''font-dst/metrics/Ubuntu-Regular.metrics.json'',
                  ''font-dst/metrics/Ubuntu-Bold.metrics.json'',
                  ''font-dst/metrics/Ubuntu-Italic.metrics.json'']"
    unfolding r
    by (simp add: n) (simp add: sample_family_def sample_metrics_dir sample_metrics_path)
  with h0 h1 h3 show ?thesis by blast
qed

section \<open>The family aggregator\<close>

lemma arraySort_snoc: "arraySort cmp (xs @ [v]) = insertSorted cmp v (arraySort cmp xs)"
  by (simp add: arraySort_def)

lemma arraySort_Nil: "arraySort cmp [] = []"
  by (simp add: arraySort_def)

lemma mset_insertSorted: "mset (insertSorted cmp v xs) = add_mset v (mset xs)"
  by (induction xs) auto

lemma set_insertSorted: "set (insertSorted cmp v xs) = insert v (set xs)"
  by (induction xs) auto

lemma mset_arraySort: "mset (arraySort cmp xs) = mset xs"
  by (induction xs rule: rev_induct) (simp_all add: arraySort_Nil arraySort_snoc mset_insertSorted)

lemma set_arraySort: "set (arraySort cmp xs) = set xs"
  by (metis mset_arraySort set_mset_mset)

text \<open>A Regular style goes to the front; any other style passes the Regular ones.\<close>

lemma insert_regular:
  "isRegular v \<Longrightarrow> insertSorted (compareFonts lc) v xs = v # xs"
  by (cases xs) (simp_all add: compareFonts_def isRegular_def)

lemma insert_after_regulars:
  "\<not> isRegular v \<Longrightarrow> \<forall>f\<in>set rs. isRegular f \<Longrightarrow>
     insertSorted (compareFonts lc) v (rs @ ns) = rs @ insertSorted (compareFonts lc) v ns"
  by (induction rs) (simp_all add: compareFonts_def isRegular_def)

lemma insert_among_others:
  "\<not> isRegular v \<Longrightarrow> \<forall>f\<in>set ns. \<not> isRegular f \<Longrightarrow>
     insertSorted (compareFonts lc) v ns
       = insertSorted (\<lambda>a b. lc (file_style a) (file_style b)) v ns"
  by (induction ns) (simp_all add: compareFonts_def isRegular_def)

lemma sortFonts_split:
  "sortFonts lc fonts =
     rev (filter isRegular fonts)
     @ arraySort (\<lambda>a b. lc (file_style a) (file_style b)) (filter (\<lambda>f. \<not> isRegular f) fonts)"
proof (induction fonts rule: rev_induct)
  case Nil
  show ?case by (simp add: sortFonts_def arraySort_Nil)
next
  case (snoc v fonts)
  have step: "sortFonts lc (fonts @ [v]) = insertSorted (compareFonts lc) v (sortFonts lc fonts)"
    by (simp add: sortFonts_def arraySort_snoc)
  show ?case
  proof (cases "isRegular v")
    case True
    then show ?thesis
      by (simp add: step snoc.IH insert_regular)
  next
    case False
    have others: "\<forall>f\<in>set (arraySort (\<lambda>a b. lc (file_style a) (file_style b))
                              (filter (\<lambda>f. \<not> isRegular f) fonts)). \<not> isRegular f"
      by (simp add: set_arraySort)
    from False show ?thesis
      by (simp add: step snoc.IH insert_after_regulars insert_among_others [OF False others]
          arraySort_snoc)
  qed
qed

lemma sorted_insertSorted:
  assumes "consistentCompare lc"
    and "sorted_wrt (\<lambda>a b. lc (file_style a) (file_style b) \<le> 0) ns"
  shows "sorted_wrt (\<lambda>a b. lc (file_style a) (file_style b) \<le> 0)
           (insertSorted (\<lambda>a b. lc (file_style a) (file_style b)) v ns)"
  using assms(2)
proof (induction ns)
  case Nil
  show ?case by simp
next
  case (Cons e es)
  from assms(1) have swap: "\<And>a b. (lc a b < 0) = (0 < lc b a)"
    and trans: "\<And>a b c. lc a b \<le> 0 \<Longrightarrow> lc b c \<le> 0 \<Longrightarrow> lc a c \<le> 0"
    unfolding consistentCompare_def by blast+
  show ?case
  proof (cases "lc (file_style v) (file_style e) < 0")
    case True
    then have ve: "lc (file_style v) (file_style e) \<le> 0" by simp
    have "lc (file_style v) (file_style y) \<le> 0" if "y \<in> set es" for y
      using Cons.prems that trans [OF ve] by auto
    with True ve Cons.prems show ?thesis by auto
  next
    case False
    with swap [of "file_style e" "file_style v"] have ev: "lc (file_style e) (file_style v) \<le> 0"
      by (metis linorder_not_less order_less_imp_le swap)
    from False Cons ev show ?thesis
      by (auto simp: set_insertSorted)
  qed
qed

lemma sorted_arraySort:
  "consistentCompare lc \<Longrightarrow>
     sorted_wrt (\<lambda>a b. lc (file_style a) (file_style b) \<le> 0)
       (arraySort (\<lambda>a b. lc (file_style a) (file_style b)) xs)"
  by (induction xs rule: rev_induct) (simp_all add: arraySort_Nil arraySort_snoc sorted_insertSorted)

lemma consistent_codeUnitCompare: "consistentCompare codeUnitCompare"
  unfolding consistentCompare_def codeUnitCompare_def
  by (auto simp: not_less dest: less_trans)

lemma Bold_before_Italic: "codeUnitCompare ''Bold'' ''Italic'' < 0"
  by (simp add: codeUnitCompare_def less_char_def)

lemma regular_labels:
  "isRegular (styled ext ''Regular'')" "\<not> isRegular (styled ext ''Bold'')"
  "\<not> isRegular (styled ext ''Italic'')"
  by (simp_all add: isRegular_def styled_def toLowerCase_def lowerChar_def)

text \<open>
  Claim C8: for every list of styles of a family, and \<open>localeCompare\<close> a consistent
  comparison, the sorted list is a rearrangement of the list in which the styles whose
  label is "Regular" up to case come first and all the other styles follow, in ascending
  order of their labels by \<open>localeCompare\<close>. The labels Bold, Regular, Italic are
  ordered Regular, Bold, Italic (Bold sorting before Italic).
\<close>

theorem family_style_order:
  "consistentCompare localeCompare \<longrightarrow>
     (let sorted = sortFonts localeCompare fonts;
          n = length (filter isRegular fonts)
      in mset sorted = mset fonts \<and>
         (\<forall>f\<in>set (take n sorted). isRegular f) \<and>
         (\<forall>f\<in>set (drop n sorted). \<not> isRegular f) \<and>
         sorted_wrt (\<lambda>a b. localeCompare (file_style a) (file_style b) \<le> 0) (drop n sorted)) \<and>
     (localeCompare ''Bold'' ''Italic'' < 0 \<longrightarrow>
        map file_style (sortFonts localeCompare
            [styled ''.ttf'' ''Bold'', styled ''.ttf'' ''Regular'', styled ''.ttf'' ''Italic''])
          = [''Regular'', ''Bold'', ''Italic''])"
proof (intro impI conjI)
  assume cons: "consistentCompare localeCompare"
  let ?rs = "rev (filter isRegular fonts)"
  let ?ns = "arraySort (\<lambda>a b. localeCompare (file_style a) (file_style b))
               (filter (\<lambda>f. \<not> isRegular f) fonts)"
  have split: "sortFonts localeCompare fonts = ?rs @ ?ns"
    by (rule sortFonts_split)
  have tk: "take (length (filter isRegular fonts)) (sortFonts localeCompare fonts) = ?rs"
    and dr: "drop (length (filter isRegular fonts)) (sortFonts localeCompare fonts) = ?ns"
    unfolding split by simp_all
  show "let sorted = sortFonts localeCompare fonts;
          n = length (filter isRegular fonts)
      in mset sorted = mset fonts \<and>
         (\<forall>f\<in>set (take n sorted). isRegular f) \<and>
         (\<forall>f\<in>set (drop n sorted). \<not> isRegular f) \<and>
         sorted_wrt (\<lambda>a b. localeCompare (file_style a) (file_style b) \<le> 0) (drop n sorted)"
    unfolding Let_def tk dr
    by (simp add: sortFonts_def mset_arraySort set_arraySort sorted_arraySort [OF cons])
  assume bi: "localeCompare ''Bold'' ''Italic'' < 0"
  from cons have swap: "(localeCompare ''Italic'' ''Bold'' < 0) = (0 < localeCompare ''Bold'' ''Italic'')"
    unfolding consistentCompare_def by blast
  with bi have ib: "\<not> localeCompare ''Italic'' ''Bold'' < 0" by simp
  let ?B = "styled ''.ttf'' ''Bold''" and ?R = "styled ''.ttf'' ''Regular''"
    and ?I = "styled ''.ttf'' ''Italic''"
  have lab: "file_style ?B = ''Bold''" "file_style ?R = ''Regular''" "file_style ?I = ''Italic''"
    by (simp_all add: styled_def)
  have s1: "sortFonts localeCompare [?B, ?R, ?I]
              = insertSorted (compareFonts localeCompare) ?I
                  (insertSorted (compareFonts localeCompare) ?R [?B])"
    by (simp add: sortFonts_def arraySort_def)
  have s2: "insertSorted (compareFonts localeCompare) ?R [?B] = [?R, ?B]"
    by (rule insert_regular) (rule regular_labels)
  have s3: "insertSorted (compareFonts localeCompare) ?I ([?R] @ [?B])
              = [?R] @ insertSorted (compareFonts localeCompare) ?I [?B]"
    by (rule insert_after_regulars) (simp_all add: regular_labels)
  have s4: "insertSorted (compareFonts localeCompare) ?I [?B]
              = insertSorted (\<lambda>a b. localeCompare (file_style a) (file_style b)) ?I [?B]"
    by (rule insert_among_others) (simp_all add: regular_labels)
  have s5: "insertSorted (\<lambda>a b. localeCompare (file_style a) (file_style b)) ?I [?B] = [?B, ?I]"
    using ib by (simp add: lab)
  from s3 have s3': "insertSorted (compareFonts localeCompare) ?I [?R, ?B]
              = ?R # insertSorted (compareFonts localeCompare) ?I [?B]"
    by simp
  show "map file_style (sortFonts localeCompare [?B, ?R, ?I]) = [''Regular'', ''Bold'', ''Italic'']"
    unfolding s1 s2 s3' s4 s5 by (simp add: lab)
qed

theorem family_style_order_witness:
  "consistentCompare codeUnitCompare \<and> codeUnitCompare ''Bold'' ''Italic'' < 0 \<and>
   map file_style (sortFonts codeUnitCompare
      [styled ''.ttf'' ''Bold'', styled ''.ttf'' ''Regular'', styled ''.ttf'' ''Italic''])
     = [''Regular'', ''Bold'', ''Italic'']"
  using family_style_order [of codeUnitCompare] consistent_codeUnitCompare Bold_before_Italic
  by blast

lemma styleInfos_copyPage: "styleInfos (copyPage dst fam ft st) = styleInfos st"
  by (simp add: copyPage_def Let_def)

lemma styleInfos_copyPages:
  "styleInfos (foldl (\<lambda>acc paginatedFile. copyPage dst fam ft acc) st fs) = styleInfos st"
  by (induction fs arbitrary: st) (simp_all add: styleInfos_copyPage)

lemma globalPageIndex_copyPage:
  "globalPageIndex (copyPage dst fam ft st) = globalPageIndex st + 1"
  by (simp add: copyPage_def Let_def)

lemma globalPageIndex_copyPages:
  "globalPageIndex (foldl (\<lambda>acc paginatedFile. copyPage dst fam ft acc) st fs)
     = globalPageIndex st + length fs"
  by (induction fs arbitrary: st) (simp_all add: globalPageIndex_copyPage)

lemma length_styleInfos_relabelStyle:
  "length (styleInfos (relabelStyle dst fam ft st entry)) = length (styleInfos st)"
  by (simp add: relabelStyle_def Let_def styleInfos_copyPage styleInfos_copyPages)

lemma length_styleInfos_relabel_all:
  "length (styleInfos (foldl (relabelStyle dst fam ft) st entries)) = length (styleInfos st)"
  by (induction entries arbitrary: st) (simp_all add: length_styleInfos_relabelStyle)

lemma length_styleInfos_rasterize_all:
  "length (styleInfos (foldl (rasterizeStyle raster fam ft) st entries))
     = length (styleInfos st) + length entries"
  by (induction entries arbitrary: st) (simp_all add: rasterizeStyle_def Let_def)

text \<open>A descriptor returned by \<open>generateFontFamily\<close> has one style per font, so at least one.\<close>

lemma descriptor_has_styles:
  assumes "snd (generateFontFamily raster dst d fam fonts ft) = Some (info, document)"
  shows "fonts \<noteq> [] \<and> length (styles info) = length fonts \<and> styles info \<noteq> []"
proof -
  from assms have ne: "fonts \<noteq> []"
    by (auto simp: generateFontFamily_def)
  with assms have "length (styles info) = length fonts"
    by (auto simp: generateFontFamily_def Let_def length_styleInfos_relabel_all
        length_styleInfos_rasterize_all split: option.splits if_splits)
  with ne show ?thesis by auto
qed

text \<open>
  One pass of the relabelling loop: the style's range starts at the current family page,
  its page count is the number of its numbered images, or 1 when there is none; the family
  page index advances by the number of images copied, which is 0 when the style has no
  image left in the directory.
\<close>

lemma relabelStyle_range:
  assumes "i < length (styleInfos st)"
  shows "(let paginated = filter (\<lambda>file. startsWith file (fam @ ''-'' @ file_style font @ ''.'' @ ft @ ''_'')
                                         \<and> endsWith file ''.png'') (dir st);
              st' = relabelStyle dst fam ft st (i, font)
          in pageIndex (styleInfos st' ! i) = globalPageIndex st \<and>
             pageCount (styleInfos st' ! i)
               = Some (if length paginated > 0 then length paginated else 1) \<and>
             globalPageIndex st'
               = globalPageIndex st
                 + (if length paginated > 0 then length paginated
                    else if fam @ ''-'' @ file_style font @ ''.'' @ ft @ ''.png'' \<in> set (dir st)
                    then 1 else 0))"
  using assms
  by (simp add: relabelStyle_def Let_def styleInfos_copyPage styleInfos_copyPages
      globalPageIndex_copyPages globalPageIndex_copyPage)

lemma pageRange_format:
  "entry_pageRange (styleEntryOf \<lparr> fontStyle = l, fontPath = p, pageIndex = start,
                                   pageCount = Some n \<rparr>)
     = (if n > 1 then show_nat start @ ''-'' @ show_nat (start + n - 1) else show_nat start)"
  by (simp add: styleEntryOf_def)

text \<open>
  Claim C9 (the page ranges of a family's styles are contiguous and do not overlap). A
  family of three fonts, two of them with the style label Regular and one Bold, each
  rasterized to one texture into an empty directory: both Regular fonts are written to the
  same file names, the first pass of the relabelling loop copies and removes them, and the
  second pass finds no image, so it records a page count of 1 without advancing the family
  page index. The descriptor holds the ranges (0, 1), (1, 1), (1, 1) and two pages: the
  third style starts at page 1, not at 1 + 1, and shares page 1 with the second.
\<close>

theorem style_ranges_overlap:
  "(case snd (generateFontFamily sample_raster ''font-dst'' [] ''Ubuntu''
          (sortFonts codeUnitCompare
             [styled ''.ttf'' ''Regular'', styled ''.otf'' ''Regular'', styled ''.ttf'' ''Bold''])
          msdf) of
      None \<Rightarrow> False
    | Some (info, document) \<Rightarrow>
        map (\<lambda>s. (fontStyle s, pageIndex s, pageCount s)) (styles info)
          = [(''Regular'', 0, Some 1), (''Regular'', 1, Some 1), (''Bold'', 1, Some 1)] \<and>
        map (\<lambda>e. (entry_pageIndex e, entry_pageCount e, entry_pageRange e)) (doc_styles document)
          = [(0, 1, ''0''), (1, 1, ''1''), (1, 1, ''1'')] \<and>
        pages (doc_template document) = [''Ubuntu.msdf_0.png'', ''Ubuntu.msdf_1.png''] \<and>
        pageIndex (styles info ! 2)
          \<noteq> pageIndex (styles info ! 1) + the (pageCount (styles info ! 1)))"
  by code_simp

end
